theory Spec2Isabelle
  imports Main "HOL-Library.Char_ord" "HOL-Library.List_Lexorder" "HOL-Library.Product_Lexorder"
    "HOL-Library.Multiset"
begin

section \<open>Values, documents and exceptions\<close>

text \<open>
  The persistence layer (\<^verbatim>\<open>mongo_persistence.py\<close>) moves Python values between
  \<^verbatim>\<open>Task\<close>/\<^verbatim>\<open>TaskExecution\<close> objects and MongoDB documents without
  inspecting them, so an attribute or a document field holds a dynamically typed value:
  \<^verbatim>\<open>None\<close>, a string, a boolean, a timestamp or a dictionary of strings
  (the API headers and body). A timestamp is a Python \<^verbatim>\<open>datetime\<close>, a number
  of microseconds.
\<close>

datatype pyval =
    PNone
  | PStr string
  | PBool bool
  | PDate int
  | PDict "(string \<times> string) list"

text \<open>
  A document is a Python \<^verbatim>\<open>dict\<close> with string keys, kept as an association list;
  \<^verbatim>\<open>doc[k]\<close> raises \<^verbatim>\<open>KeyError\<close> on a missing key and \<^verbatim>\<open>doc.get(k, d)\<close>
  returns the default. The \<^verbatim>\<open>_id\<close> field that the database adds is never read by
  the code and is left out.
\<close>

type_synonym doc = "(string \<times> pyval) list"

datatype exn =
    ConnectionFailure string
  | ServerSelectionTimeoutError string
  | PyMongoError string
  | KeyError string
  | ValueError pyval string
  | OverflowError string
  | TimeoutError
  | ClientError string

definition doc_index :: "doc \<Rightarrow> string \<Rightarrow> exn + pyval" where
  "doc_index d k = (case map_of d k of None \<Rightarrow> Inl (KeyError k) | Some v \<Rightarrow> Inr v)"

definition doc_get :: "doc \<Rightarrow> string \<Rightarrow> pyval \<Rightarrow> pyval" where
  "doc_get d k dflt = (case map_of d k of None \<Rightarrow> dflt | Some v \<Rightarrow> v)"

text \<open>Sequencing of statements that may raise: the first exception ends the block.\<close>

definition try_bind :: "exn + 'a \<Rightarrow> ('a \<Rightarrow> exn + 'b) \<Rightarrow> exn + 'b" where
  "try_bind r f = (case r of Inl e \<Rightarrow> Inl e | Inr v \<Rightarrow> f v)"

text \<open>A list comprehension over a conversion that may raise.\<close>

fun comprehension :: "('a \<Rightarrow> exn + 'b) \<Rightarrow> 'a list \<Rightarrow> exn + 'b list" where
  "comprehension f [] = Inr []"
| "comprehension f (x # xs) =
     (case f x of
        Inl e \<Rightarrow> Inl e
      | Inr y \<Rightarrow> (case comprehension f xs of Inl e \<Rightarrow> Inl e | Inr ys \<Rightarrow> Inr (y # ys)))"

text \<open>
  Log records keep the level, the message template and the interpolated arguments.
\<close>

datatype log_level = INFO | WARNING | ERROR

datatype log_arg = AStr string | AInt int | AVal pyval | AExn exn

datatype log_record = Log log_level string "log_arg list"

section \<open>Entity model\<close>

text \<open>
  Modelled from the spec: the module \<^verbatim>\<open>task.py\<close> (classes \<^verbatim>\<open>TaskType\<close>,
  \<^verbatim>\<open>TaskStatus\<close>, \<^verbatim>\<open>Task\<close>, \<^verbatim>\<open>TaskExecution\<close>) is imported by the persistence
  layer but is not among the sources. The specification gives the task type as one of
  command, api, ai-prompt, reminder and the status as one of pending, running, completed,
  failed, cancelled; the stored value of a member is its name there. The entity classes
  carry the fields that \<^verbatim>\<open>save_task\<close> and \<^verbatim>\<open>save_execution\<close> read and have no
  behaviour of their own.
\<close>

datatype TaskType = COMMAND | API | AI_PROMPT | REMINDER

datatype TaskStatus = PENDING | RUNNING | COMPLETED | FAILED | CANCELLED

fun TaskType_value :: "TaskType \<Rightarrow> string" where
  "TaskType_value COMMAND = ''command''"
| "TaskType_value API = ''api''"
| "TaskType_value AI_PROMPT = ''ai-prompt''"
| "TaskType_value REMINDER = ''reminder''"

fun TaskStatus_value :: "TaskStatus \<Rightarrow> string" where
  "TaskStatus_value PENDING = ''pending''"
| "TaskStatus_value RUNNING = ''running''"
| "TaskStatus_value COMPLETED = ''completed''"
| "TaskStatus_value FAILED = ''failed''"
| "TaskStatus_value CANCELLED = ''cancelled''"

text \<open>
  \<^verbatim>\<open>TaskType(v)\<close> and \<^verbatim>\<open>TaskStatus(v)\<close>: the member whose value is \<^verbatim>\<open>v\<close>, or
  \<^verbatim>\<open>ValueError\<close>.
\<close>

definition TaskType_of :: "pyval \<Rightarrow> exn + TaskType" where
  "TaskType_of v =
     (if v = PStr ''command'' then Inr COMMAND
      else if v = PStr ''api'' then Inr API
      else if v = PStr ''ai-prompt'' then Inr AI_PROMPT
      else if v = PStr ''reminder'' then Inr REMINDER
      else Inl (ValueError v ''TaskType''))"

definition TaskStatus_of :: "pyval \<Rightarrow> exn + TaskStatus" where
  "TaskStatus_of v =
     (if v = PStr ''pending'' then Inr PENDING
      else if v = PStr ''running'' then Inr RUNNING
      else if v = PStr ''completed'' then Inr COMPLETED
      else if v = PStr ''failed'' then Inr FAILED
      else if v = PStr ''cancelled'' then Inr CANCELLED
      else Inl (ValueError v ''TaskStatus''))"

record Task =
  id_T :: pyval
  name :: pyval
  schedule :: pyval
  type_T :: TaskType
  command :: pyval
  api_url :: pyval
  api_method :: pyval
  api_headers :: pyval
  api_body :: pyval
  prompt :: pyval
  description :: pyval
  enabled :: pyval
  do_only_once :: pyval
  last_run :: pyval
  next_run :: pyval
  status_T :: TaskStatus
  created_at :: pyval
  updated_at :: pyval
  reminder_title :: pyval
  reminder_message :: pyval
  user_T :: pyval
  conversation_id :: pyval

record TaskExecution =
  id_E :: pyval
  task_id :: pyval
  start_time :: pyval
  end_time :: pyval
  status_E :: TaskStatus
  output_E :: pyval
  error_E :: pyval
  user_E :: pyval

section \<open>The database driver\<close>

text \<open>
  A collection is the list of its documents in insertion order. Every call into the
  driver either raises (the server is unreachable, the operation is rejected) or
  answers; which of the two happens is the argument \<open>fault\<close> of each operation.

  The driver encodes every value it sends as BSON. A BSON date counts whole
  milliseconds, so the microseconds of a \<^verbatim>\<open>datetime\<close> are cut off on the way in;
  the other values are kept as they are.
\<close>

type_synonym collection = "doc list"

type_synonym fault = "exn option"

fun bson_value :: "pyval \<Rightarrow> pyval" where
  "bson_value (PDate t) = PDate (t div 1000 * 1000)"
| "bson_value PNone = PNone"
| "bson_value (PStr s) = PStr s"
| "bson_value (PBool b) = PBool b"
| "bson_value (PDict kvs) = PDict kvs"

definition bson_document :: "doc \<Rightarrow> doc" where
  "bson_document d = map (\<lambda>(k, v). (k, bson_value v)) d"

text \<open>
  A filter \<^verbatim>\<open>{field: v}\<close> selects the documents whose field equals the encoded
  \<^verbatim>\<open>v\<close>; the filter value \<^verbatim>\<open>None\<close> also selects the documents without the field.
\<close>

definition doc_matches :: "string \<Rightarrow> pyval \<Rightarrow> doc \<Rightarrow> bool" where
  "doc_matches field v d =
     (case map_of d field of None \<Rightarrow> bson_value v = PNone | Some w \<Rightarrow> w = bson_value v)"

fun replace_first :: "(doc \<Rightarrow> bool) \<Rightarrow> doc \<Rightarrow> collection \<Rightarrow> collection option" where
  "replace_first p new [] = None"
| "replace_first p new (d # ds) =
     (if p d then Some (new # ds)
      else (case replace_first p new ds of None \<Rightarrow> None | Some ds' \<Rightarrow> Some (d # ds')))"

text \<open>
  \<^verbatim>\<open>replace_one(filter, doc, upsert=True)\<close>: the first matching document is replaced
  by the encoded new one as a whole; without a match the new document is inserted.
\<close>

definition replace_one_upsert :: "fault \<Rightarrow> collection \<Rightarrow> string \<Rightarrow> pyval \<Rightarrow> doc \<Rightarrow> exn + collection" where
  "replace_one_upsert fault coll field v new =
     (case fault of
        Some e \<Rightarrow> Inl e
      | None \<Rightarrow>
          (case replace_first (doc_matches field v) (bson_document new) coll of
             Some coll' \<Rightarrow> Inr coll'
           | None \<Rightarrow> Inr (coll @ [bson_document new])))"

definition find_one :: "fault \<Rightarrow> collection \<Rightarrow> string \<Rightarrow> pyval \<Rightarrow> exn + doc option" where
  "find_one fault coll field v =
     (case fault of
        Some e \<Rightarrow> Inl e
      | None \<Rightarrow> Inr (find (doc_matches field v) coll))"

fun delete_first :: "(doc \<Rightarrow> bool) \<Rightarrow> collection \<Rightarrow> collection \<times> nat" where
  "delete_first p [] = ([], 0)"
| "delete_first p (d # ds) =
     (if p d then (ds, 1) else (case delete_first p ds of (ds', n) \<Rightarrow> (d # ds', n)))"

text \<open>\<^verbatim>\<open>delete_one(filter)\<close>: the new collection and \<^verbatim>\<open>deleted_count\<close>.\<close>

definition delete_one :: "fault \<Rightarrow> collection \<Rightarrow> string \<Rightarrow> pyval \<Rightarrow> exn + collection \<times> nat" where
  "delete_one fault coll field v =
     (case fault of
        Some e \<Rightarrow> Inl e
      | None \<Rightarrow> Inr (delete_first (doc_matches field v) coll))"

text \<open>
  Cursors. \<^verbatim>\<open>find()\<close> and \<^verbatim>\<open>find(filter)\<close> select, \<^verbatim>\<open>sort(field, -1)\<close> orders
  by the field's value, largest first, and \<^verbatim>\<open>limit(n)\<close> records the limit; nothing
  is sent until \<^verbatim>\<open>list(cursor)\<close> iterates, which is where the driver may raise.

  The database compares values of different kinds by kind (null, then strings, then
  embedded documents, then booleans, then dates) and values of one kind by content;
  a missing field sorts as null. \<open>bson_key\<close> maps a value to a key with that order.

  The request names the sort key and nothing else. How the server orders documents
  whose keys are equal is not part of the request, so the server's sort is an argument
  of the query, \<open>engine\<close>, of which only \<open>sorts_descending\<close> is known: it returns the
  documents it was given, largest key first. Two such sorts are
  \<open>ties_in_insertion_order\<close> and \<open>ties_in_reverse_order\<close>.

  The driver documents \<^verbatim>\<open>limit(0)\<close> as equivalent to no limit, sends a negative
  limit as its absolute value, and cannot encode a limit of more than 64 bits.
\<close>

type_synonym sort_key = "nat \<times> int \<times> string \<times> (string \<times> string) list"

fun bson_key :: "pyval \<Rightarrow> sort_key" where
  "bson_key PNone = (0, 0, [], [])"
| "bson_key (PStr s) = (1, 0, s, [])"
| "bson_key (PDict kvs) = (2, 0, [], kvs)"
| "bson_key (PBool b) = (3, (if b then 1 else 0), [], [])"
| "bson_key (PDate t) = (4, t, [], [])"

type_synonym sort_engine = "(doc \<Rightarrow> sort_key) \<Rightarrow> doc list \<Rightarrow> doc list"

definition sorts_descending :: "sort_engine \<Rightarrow> bool" where
  "sorts_descending engine =
     (\<forall>key ds. mset (engine key ds) = mset ds
              \<and> sorted_wrt (\<lambda>a b. key b \<le> key a) (engine key ds))"

definition ties_in_insertion_order :: sort_engine where
  "ties_in_insertion_order key ds = rev (sort_key key (rev ds))"

definition ties_in_reverse_order :: sort_engine where
  "ties_in_reverse_order key ds = rev (sort_key key ds)"

record cursor =
  c_docs :: "doc list"
  c_limit :: int

definition cursor_find_all :: "collection \<Rightarrow> cursor" where
  "cursor_find_all coll = \<lparr> c_docs = coll, c_limit = 0 \<rparr>"

definition cursor_find :: "collection \<Rightarrow> string \<Rightarrow> pyval \<Rightarrow> cursor" where
  "cursor_find coll field v = \<lparr> c_docs = filter (doc_matches field v) coll, c_limit = 0 \<rparr>"

definition cursor_sort_desc :: "sort_engine \<Rightarrow> string \<Rightarrow> cursor \<Rightarrow> cursor" where
  "cursor_sort_desc engine field c =
     c\<lparr>c_docs := engine (\<lambda>d. bson_key (doc_get d field PNone)) (c_docs c)\<rparr>"

definition cursor_limit :: "int \<Rightarrow> cursor \<Rightarrow> cursor" where
  "cursor_limit n c = c\<lparr>c_limit := n\<rparr>"

definition cursor_list :: "fault \<Rightarrow> cursor \<Rightarrow> exn + doc list" where
  "cursor_list fault c =
     (case fault of
        Some e \<Rightarrow> Inl e
      | None \<Rightarrow>
          if 2 ^ 63 \<le> \<bar>c_limit c\<bar> then Inl (OverflowError ''limit'')
          else if c_limit c = 0 then Inr (c_docs c)
          else Inr (take (nat \<bar>c_limit c\<bar>) (c_docs c)))"

section \<open>The persistence layer\<close>

record MongoDatabase =
  tasks_collection :: collection
  executions_collection :: collection

text \<open>
  An operation returns what the caller sees (a value, or the exception that reaches
  the caller) together with the log records written.
\<close>

type_synonym 'a call = "(exn + 'a) \<times> log_record list"

definition task_doc :: "Task \<Rightarrow> doc" where
  "task_doc task =
     [(''id'', id_T task),
      (''name'', name task),
      (''schedule'', schedule task),
      (''type'', PStr (TaskType_value (type_T task))),
      (''command'', command task),
      (''api_url'', api_url task),
      (''api_method'', api_method task),
      (''api_headers'', api_headers task),
      (''api_body'', api_body task),
      (''prompt'', prompt task),
      (''description'', description task),
      (''enabled'', enabled task),
      (''do_only_once'', do_only_once task),
      (''last_run'', last_run task),
      (''next_run'', next_run task),
      (''status'', PStr (TaskStatus_value (status_T task))),
      (''created_at'', created_at task),
      (''updated_at'', updated_at task),
      (''reminder_title'', reminder_title task),
      (''reminder_message'', reminder_message task),
      (''user'', user_T task),
      (''conversation_id'', conversation_id task)]"

definition save_task :: "fault \<Rightarrow> MongoDatabase \<Rightarrow> Task \<Rightarrow> MongoDatabase call" where
  "save_task fault db task =
     (case replace_one_upsert fault (tasks_collection db) ''id'' (id_T task) (task_doc task) of
        Inr coll \<Rightarrow> (Inr (db\<lparr>tasks_collection := coll\<rparr>), [])
      | Inl e \<Rightarrow>
          (Inl e, [Log ERROR ''Failed to save task {}: {}'' [AVal (id_T task), AExn e]]))"

text \<open>
  \<^verbatim>\<open>_doc_to_task\<close>: the keyword arguments are evaluated in the order written, so the
  first missing required key or invalid enumeration value decides the exception.
\<close>

definition doc_to_task :: "doc \<Rightarrow> exn + Task" where
  "doc_to_task d =
     try_bind (doc_index d ''id'') (\<lambda>v_id.
     try_bind (doc_index d ''name'') (\<lambda>v_name.
     try_bind (doc_index d ''schedule'') (\<lambda>v_schedule.
     try_bind (doc_index d ''type'') (\<lambda>v_type.
     try_bind (TaskType_of v_type) (\<lambda>ty.
     try_bind (TaskStatus_of (doc_get d ''status'' (PStr (TaskStatus_value PENDING)))) (\<lambda>st.
     try_bind (doc_index d ''created_at'') (\<lambda>v_created.
     try_bind (doc_index d ''updated_at'') (\<lambda>v_updated.
     Inr \<lparr> id_T = v_id,
           name = v_name,
           schedule = v_schedule,
           type_T = ty,
           command = doc_get d ''command'' PNone,
           api_url = doc_get d ''api_url'' PNone,
           api_method = doc_get d ''api_method'' PNone,
           api_headers = doc_get d ''api_headers'' PNone,
           api_body = doc_get d ''api_body'' PNone,
           prompt = doc_get d ''prompt'' PNone,
           description = doc_get d ''description'' PNone,
           enabled = doc_get d ''enabled'' (PBool True),
           do_only_once = doc_get d ''do_only_once'' (PBool True),
           last_run = doc_get d ''last_run'' PNone,
           next_run = doc_get d ''next_run'' PNone,
           status_T = st,
           created_at = v_created,
           updated_at = v_updated,
           reminder_title = doc_get d ''reminder_title'' PNone,
           reminder_message = doc_get d ''reminder_message'' PNone,
           user_T = doc_get d ''user'' PNone,
           conversation_id = doc_get d ''conversation_id'' PNone \<rparr>))))))))"

text \<open>\<^verbatim>\<open>_doc_to_execution\<close>.\<close>

definition doc_to_execution :: "doc \<Rightarrow> exn + TaskExecution" where
  "doc_to_execution d =
     try_bind (doc_index d ''id'') (\<lambda>v_id.
     try_bind (doc_index d ''task_id'') (\<lambda>v_task.
     try_bind (doc_index d ''start_time'') (\<lambda>v_start.
     try_bind (doc_index d ''status'') (\<lambda>v_status.
     try_bind (TaskStatus_of v_status) (\<lambda>st.
     Inr \<lparr> id_E = v_id,
           task_id = v_task,
           start_time = v_start,
           end_time = doc_get d ''end_time'' PNone,
           status_E = st,
           output_E = doc_get d ''output'' PNone,
           error_E = doc_get d ''error'' PNone,
           user_E = doc_get d ''user'' PNone \<rparr>)))))"

text \<open>
  \<^verbatim>\<open>get_task\<close>: \<^verbatim>\<open>if not doc\<close> holds for \<^verbatim>\<open>None\<close> and for the empty document.
  The handler \<^verbatim>\<open>except Exception\<close> turns every exception of the block into the
  return value \<^verbatim>\<open>None\<close>.
\<close>

definition get_task :: "fault \<Rightarrow> MongoDatabase \<Rightarrow> string \<Rightarrow> Task option call" where
  "get_task fault db tid =
     (case try_bind (find_one fault (tasks_collection db) ''id'' (PStr tid))
             (\<lambda>r. case r of
                     None \<Rightarrow> Inr None
                   | Some d \<Rightarrow> if d = [] then Inr None
                               else try_bind (doc_to_task d) (\<lambda>t. Inr (Some t))) of
        Inr r \<Rightarrow> (Inr r, [])
      | Inl e \<Rightarrow> (Inr None, [Log ERROR ''Failed to get task {}: {}'' [AStr tid, AExn e]]))"

definition get_all_tasks :: "fault \<Rightarrow> MongoDatabase \<Rightarrow> Task list call" where
  "get_all_tasks fault db =
     (case try_bind (cursor_list fault (cursor_find_all (tasks_collection db)))
             (comprehension doc_to_task) of
        Inr ts \<Rightarrow> (Inr ts, [])
      | Inl e \<Rightarrow> (Inr [], [Log ERROR ''Failed to get all tasks: {}'' [AExn e]]))"

definition get_tasks_by_user :: "fault \<Rightarrow> MongoDatabase \<Rightarrow> string \<Rightarrow> Task list call" where
  "get_tasks_by_user fault db uid =
     (case try_bind (cursor_list fault (cursor_find (tasks_collection db) ''user'' (PStr uid)))
             (comprehension doc_to_task) of
        Inr ts \<Rightarrow> (Inr ts, [])
      | Inl e \<Rightarrow>
          (Inr [], [Log ERROR ''Failed to get tasks for user {}: {}'' [AStr uid, AExn e]]))"

text \<open>\<^verbatim>\<open>delete_task\<close> returns the flag; the database after the call is the second component.\<close>

definition delete_task :: "fault \<Rightarrow> MongoDatabase \<Rightarrow> string \<Rightarrow> (bool \<times> MongoDatabase) call" where
  "delete_task fault db tid =
     (case delete_one fault (tasks_collection db) ''id'' (PStr tid) of
        Inr (coll, deleted_count) \<Rightarrow> (Inr (deleted_count > 0, db\<lparr>tasks_collection := coll\<rparr>), [])
      | Inl e \<Rightarrow>
          (Inr (False, db), [Log ERROR ''Failed to delete task {}: {}'' [AStr tid, AExn e]]))"

definition execution_doc :: "TaskExecution \<Rightarrow> doc" where
  "execution_doc execution =
     [(''id'', id_E execution),
      (''task_id'', task_id execution),
      (''start_time'', start_time execution),
      (''end_time'', end_time execution),
      (''status'', PStr (TaskStatus_value (status_E execution))),
      (''output'', output_E execution),
      (''error'', error_E execution),
      (''user'', user_E execution)]"

definition save_execution :: "fault \<Rightarrow> MongoDatabase \<Rightarrow> TaskExecution \<Rightarrow> MongoDatabase call" where
  "save_execution fault db execution =
     (case replace_one_upsert fault (executions_collection db) ''id'' (id_E execution)
             (execution_doc execution) of
        Inr coll \<Rightarrow> (Inr (db\<lparr>executions_collection := coll\<rparr>), [])
      | Inl e \<Rightarrow>
          (Inl e, [Log ERROR ''Failed to save execution {}: {}'' [AVal (id_E execution), AExn e]]))"

text \<open>
  The optional argument \<^verbatim>\<open>limit\<close> is \<open>None\<close> when the caller leaves it out; the
  defaults are 10 and 50. The argument \<open>engine\<close> is the server's sort at this call.
\<close>

definition get_executions ::
  "fault \<Rightarrow> sort_engine \<Rightarrow> MongoDatabase \<Rightarrow> string \<Rightarrow> int option \<Rightarrow> TaskExecution list call" where
  "get_executions fault engine db tid limit_arg =
     (let limit = (case limit_arg of None \<Rightarrow> 10 | Some n \<Rightarrow> n) in
      case try_bind
             (cursor_list fault
                (cursor_limit limit
                   (cursor_sort_desc engine ''start_time''
                      (cursor_find (executions_collection db) ''task_id'' (PStr tid)))))
             (comprehension doc_to_execution) of
        Inr es \<Rightarrow> (Inr es, [])
      | Inl e \<Rightarrow>
          (Inr [], [Log ERROR ''Failed to get executions for task {}: {}'' [AStr tid, AExn e]]))"

definition get_executions_by_user ::
  "fault \<Rightarrow> sort_engine \<Rightarrow> MongoDatabase \<Rightarrow> string \<Rightarrow> int option \<Rightarrow> TaskExecution list call" where
  "get_executions_by_user fault engine db uid limit_arg =
     (let limit = (case limit_arg of None \<Rightarrow> 50 | Some n \<Rightarrow> n) in
      case try_bind
             (cursor_list fault
                (cursor_limit limit
                   (cursor_sort_desc engine ''start_time''
                      (cursor_find (executions_collection db) ''user'' (PStr uid)))))
             (comprehension doc_to_execution) of
        Inr es \<Rightarrow> (Inr es, [])
      | Inl e \<Rightarrow>
          (Inr [], [Log ERROR ''Failed to get executions for user {}: {}'' [AStr uid, AExn e]]))"

section \<open>Message delivery\<close>

text \<open>
  \<^verbatim>\<open>message_delivery.py\<close>. The constructor strips trailing slashes from the base
  URL and derives the two endpoints.
\<close>

record MessageDelivery =
  librechat_base_url :: string
  task_result_endpoint :: string
  notification_endpoint :: string

definition rstrip_slash :: "string \<Rightarrow> string" where
  "rstrip_slash s = rev (dropWhile (\<lambda>c. c = CHR ''/'') (rev s))"

definition MessageDelivery_init :: "string \<Rightarrow> MessageDelivery" where
  "MessageDelivery_init base_url =
     (let base = rstrip_slash base_url in
      \<lparr> librechat_base_url = base,
        task_result_endpoint = base @ ''/api/scheduler/internal/task-result'',
        notification_endpoint = base @ ''/api/scheduler/internal/notification'' \<rparr>)"

text \<open>
  The network is the environment's answer to a POST of a JSON payload to a URL: a
  response with its status and its body (reading the body may itself raise), or an
  exception of the client (a timeout after the 10 seconds allowed, a transport error).
  Each request made is recorded in the trace of effects, next to the log records.
  Cancellation of the coroutine by its caller is not modelled.
\<close>

datatype body_outcome = BodyText string | BodyRaises exn

datatype http_outcome = Response int body_outcome | PostRaises exn

type_synonym network = "string \<Rightarrow> doc \<Rightarrow> http_outcome"

datatype effect = HttpPost string doc | Logged log_record

fun is_HttpPost :: "effect \<Rightarrow> bool" where
  "is_HttpPost (HttpPost url payload) = True"
| "is_HttpPost (Logged r) = False"

text \<open>\<^verbatim>\<open>not x\<close> for an optional string: \<^verbatim>\<open>None\<close> and the empty string are false.\<close>

fun py_not :: "string option \<Rightarrow> bool" where
  "py_not None = True"
| "py_not (Some s) = (s = [])"

fun opt_val :: "string option \<Rightarrow> pyval" where
  "opt_val None = PNone"
| "opt_val (Some s) = PStr s"

text \<open>The JSON bodies of the two requests.\<close>

definition task_result_payload ::
  "string option \<Rightarrow> string option \<Rightarrow> string \<Rightarrow> string \<Rightarrow> string \<Rightarrow> string \<Rightarrow> bool \<Rightarrow> doc" where
  "task_result_payload user_id conv_id task_name tid result task_type success =
     [(''userId'', opt_val user_id),
      (''conversationId'', opt_val conv_id),
      (''taskName'', PStr task_name),
      (''taskId'', PStr tid),
      (''result'', PStr result),
      (''taskType'', PStr task_type),
      (''success'', PBool success)]"

definition notification_payload ::
  "string option \<Rightarrow> string option \<Rightarrow> string \<Rightarrow> string \<Rightarrow> string \<Rightarrow> string option \<Rightarrow> doc" where
  "notification_payload user_id conv_id task_name tid notification_type details =
     [(''userId'', opt_val user_id),
      (''conversationId'', opt_val conv_id),
      (''taskName'', PStr task_name),
      (''taskId'', PStr tid),
      (''notificationType'', PStr notification_type),
      (''details'', opt_val details)]"

text \<open>
  The block under \<^verbatim>\<open>try\<close> of \<^verbatim>\<open>send_task_result\<close>: what it returns or raises,
  and its effects.
\<close>

definition post_task_result ::
  "network \<Rightarrow> string \<Rightarrow> doc \<Rightarrow> string \<Rightarrow> string option \<Rightarrow> (exn + bool) \<times> effect list" where
  "post_task_result net url payload tid user_id =
     (case net url payload of
        PostRaises e \<Rightarrow> (Inl e, [HttpPost url payload])
      | Response status body \<Rightarrow>
          if status = 200 then
            (Inr True,
             [HttpPost url payload,
              Logged (Log INFO ''Successfully sent task result for task {} to user {}''
                        [AStr tid, AVal (opt_val user_id)])])
          else
            (case body of
               BodyRaises e \<Rightarrow> (Inl e, [HttpPost url payload])
             | BodyText error_text \<Rightarrow>
                 (Inr False,
                  [HttpPost url payload,
                   Logged (Log ERROR ''Failed to send task result for task {}: {} - {}''
                             [AStr tid, AInt status, AStr error_text])])))"

definition send_task_result ::
  "MessageDelivery \<Rightarrow> network \<Rightarrow> string option \<Rightarrow> string option \<Rightarrow> string \<Rightarrow> string \<Rightarrow> string
     \<Rightarrow> string \<Rightarrow> bool \<Rightarrow> (exn + bool) \<times> effect list" where
  "send_task_result self net user_id conv_id task_name tid result task_type success =
     (if py_not user_id \<or> py_not conv_id then
        (Inr False,
         [Logged (Log WARNING
                    ''Cannot send message for task {}: missing user_id or conversation_id''
                    [AStr tid])])
      else
        let payload = task_result_payload user_id conv_id task_name tid result task_type success
        in case post_task_result net (task_result_endpoint self) payload tid user_id of
             (Inr b, effects) \<Rightarrow> (Inr b, effects)
           | (Inl e, effects) \<Rightarrow>
               if e = TimeoutError then
                 (Inr False,
                  effects @ [Logged (Log ERROR ''Timeout sending task result for task {}''
                                       [AStr tid])])
               else
                 (Inr False,
                  effects @ [Logged (Log ERROR ''Error sending task result for task {}: {}''
                                       [AStr tid, AExn e])]))"

text \<open>The block under \<^verbatim>\<open>try\<close> of \<^verbatim>\<open>send_task_notification\<close>.\<close>

definition post_task_notification ::
  "network \<Rightarrow> string \<Rightarrow> doc \<Rightarrow> string \<Rightarrow> string option \<Rightarrow> (exn + bool) \<times> effect list" where
  "post_task_notification net url payload tid user_id =
     (case net url payload of
        PostRaises e \<Rightarrow> (Inl e, [HttpPost url payload])
      | Response status body \<Rightarrow>
          if status = 200 then
            (Inr True,
             [HttpPost url payload,
              Logged (Log INFO ''Successfully sent notification for task {} to user {}''
                        [AStr tid, AVal (opt_val user_id)])])
          else
            (case body of
               BodyRaises e \<Rightarrow> (Inl e, [HttpPost url payload])
             | BodyText error_text \<Rightarrow>
                 (Inr False,
                  [HttpPost url payload,
                   Logged (Log ERROR ''Failed to send notification for task {}: {} - {}''
                             [AStr tid, AInt status, AStr error_text])])))"

definition send_task_notification ::
  "MessageDelivery \<Rightarrow> network \<Rightarrow> string option \<Rightarrow> string option \<Rightarrow> string \<Rightarrow> string \<Rightarrow> string
     \<Rightarrow> string option \<Rightarrow> (exn + bool) \<times> effect list" where
  "send_task_notification self net user_id conv_id task_name tid notification_type details =
     (if py_not user_id \<or> py_not conv_id then (Inr False, [])
      else
        let payload = notification_payload user_id conv_id task_name tid notification_type details
        in case post_task_notification net (notification_endpoint self) payload tid user_id of
             (Inr b, effects) \<Rightarrow> (Inr b, effects)
           | (Inl e, effects) \<Rightarrow>
               (Inr False,
                effects @ [Logged (Log ERROR ''Error sending notification for task {}: {}''
                                     [AStr tid, AExn e])]))"

section \<open>What the database keeps of a task\<close>

text \<open>
  A task as it comes back from the database: every attribute as the driver encoded it,
  that is, each timestamp cut to whole milliseconds and everything else unchanged.
\<close>

definition task_as_stored :: "Task \<Rightarrow> Task" where
  "task_as_stored t =
     \<lparr> id_T = bson_value (id_T t),
       name = bson_value (name t),
       schedule = bson_value (schedule t),
       type_T = type_T t,
       command = bson_value (command t),
       api_url = bson_value (api_url t),
       api_method = bson_value (api_method t),
       api_headers = bson_value (api_headers t),
       api_body = bson_value (api_body t),
       prompt = bson_value (prompt t),
       description = bson_value (description t),
       enabled = bson_value (enabled t),
       do_only_once = bson_value (do_only_once t),
       last_run = bson_value (last_run t),
       next_run = bson_value (next_run t),
       status_T = status_T t,
       created_at = bson_value (created_at t),
       updated_at = bson_value (updated_at t),
       reminder_title = bson_value (reminder_title t),
       reminder_message = bson_value (reminder_message t),
       user_T = bson_value (user_T t),
       conversation_id = bson_value (conversation_id t) \<rparr>"

section \<open>Stored documents that can be read\<close>

text \<open>
  The fields that \<^verbatim>\<open>_doc_to_task\<close> and \<^verbatim>\<open>_doc_to_execution\<close> cannot do
  without: the keys read with \<^verbatim>\<open>doc[...]\<close>, and enumeration values that are members.
  For a task the status may be absent; for an execution it is required.
\<close>

definition has_key :: "doc \<Rightarrow> string \<Rightarrow> bool" where
  "has_key d k = (map_of d k \<noteq> None)"

definition required_task_fields :: "doc \<Rightarrow> bool" where
  "required_task_fields d =
     (has_key d ''id'' \<and> has_key d ''name'' \<and> has_key d ''schedule''
      \<and> (case map_of d ''type'' of None \<Rightarrow> False | Some v \<Rightarrow> \<not> isl (TaskType_of v))
      \<and> (case map_of d ''status'' of None \<Rightarrow> True | Some v \<Rightarrow> \<not> isl (TaskStatus_of v))
      \<and> has_key d ''created_at'' \<and> has_key d ''updated_at'')"

definition required_execution_fields :: "doc \<Rightarrow> bool" where
  "required_execution_fields d =
     (has_key d ''id'' \<and> has_key d ''task_id'' \<and> has_key d ''start_time''
      \<and> (case map_of d ''status'' of None \<Rightarrow> False | Some v \<Rightarrow> \<not> isl (TaskStatus_of v)))"

section \<open>Concrete inputs\<close>

definition net_ok :: network where
  "net_ok url payload = Response 200 (BodyText ''ok'')"

definition net_500 :: network where
  "net_500 url payload = Response 500 (BodyText ''Internal Server Error'')"

definition delivery_local :: MessageDelivery where
  "delivery_local = MessageDelivery_init ''http://localhost:3080/''"

definition task_one :: Task where
  "task_one =
     \<lparr> id_T = PStr ''t1'',
       name = PStr ''standup'',
       schedule = PStr ''* * * * *'',
       type_T = REMINDER,
       command = PNone,
       api_url = PNone,
       api_method = PNone,
       api_headers = PNone,
       api_body = PNone,
       prompt = PNone,
       description = PNone,
       enabled = PBool True,
       do_only_once = PBool False,
       last_run = PNone,
       next_run = PNone,
       status_T = PENDING,
       created_at = PDate 1000000,
       updated_at = PDate 1000000,
       reminder_title = PStr ''Standup'',
       reminder_message = PStr ''Daily standup'',
       user_T = PStr ''u1'',
       conversation_id = PStr ''c1'' \<rparr>"

definition task_older :: Task where
  "task_older = task_one\<lparr>updated_at := PDate 500000\<rparr>"

definition stale_doc :: doc where
  "stale_doc =
     [(''id'', PStr ''t1''),
      (''name'', PStr ''old name''),
      (''description'', PStr ''old description''),
      (''legacy'', PBool True)]"

definition bogus_doc :: doc where
  "bogus_doc =
     [(''id'', PStr ''t2''),
      (''name'', PStr ''broken''),
      (''schedule'', PStr ''@daily''),
      (''type'', PStr ''bogus''),
      (''status'', PStr ''pending''),
      (''created_at'', PDate 1000),
      (''updated_at'', PDate 1000),
      (''user'', PStr ''u1'')]"

definition exec_running :: TaskExecution where
  "exec_running =
     \<lparr> id_E = PStr ''e1'',
       task_id = PStr ''t1'',
       start_time = PDate 1000000,
       end_time = PNone,
       status_E = RUNNING,
       output_E = PNone,
       error_E = PNone,
       user_E = PStr ''u1'' \<rparr>"

definition exec_done :: TaskExecution where
  "exec_done =
     exec_running\<lparr>end_time := PDate 2000000, status_E := COMPLETED, output_E := PStr ''ok''\<rparr>"

definition exec_later :: TaskExecution where
  "exec_later = exec_running\<lparr>id_E := PStr ''e2'', start_time := PDate 3000000\<rparr>"

definition db_empty :: MongoDatabase where
  "db_empty = \<lparr> tasks_collection = [], executions_collection = [] \<rparr>"

definition db_one :: MongoDatabase where
  "db_one = \<lparr> tasks_collection = [task_doc task_one], executions_collection = [] \<rparr>"

definition db_older :: MongoDatabase where
  "db_older = \<lparr> tasks_collection = [task_doc task_older], executions_collection = [] \<rparr>"

definition db_stale :: MongoDatabase where
  "db_stale =
     \<lparr> tasks_collection = [stale_doc], executions_collection = [execution_doc exec_done] \<rparr>"

definition db_mixed :: MongoDatabase where
  "db_mixed = \<lparr> tasks_collection = [task_doc task_one, bogus_doc], executions_collection = [] \<rparr>"

definition db_two :: MongoDatabase where
  "db_two =
     \<lparr> tasks_collection = [task_doc task_one],
       executions_collection = [execution_doc exec_done, execution_doc exec_later] \<rparr>"

definition minimal_task_doc :: doc where
  "minimal_task_doc =
     [(''id'', PStr ''t3''),
      (''name'', PStr ''legacy''),
      (''schedule'', PStr ''@hourly''),
      (''type'', PStr ''command''),
      (''created_at'', PDate 1000),
      (''updated_at'', PDate 2000),
      (''user'', PStr ''u3'')]"

definition minimal_task :: Task where
  "minimal_task =
     \<lparr> id_T = PStr ''t3'',
       name = PStr ''legacy'',
       schedule = PStr ''@hourly'',
       type_T = COMMAND,
       command = PNone,
       api_url = PNone,
       api_method = PNone,
       api_headers = PNone,
       api_body = PNone,
       prompt = PNone,
       description = PNone,
       enabled = PBool True,
       do_only_once = PBool True,
       last_run = PNone,
       next_run = PNone,
       status_T = PENDING,
       created_at = PDate 1000,
       updated_at = PDate 2000,
       reminder_title = PNone,
       reminder_message = PNone,
       user_T = PStr ''u3'',
       conversation_id = PNone \<rparr>"

definition minimal_execution_doc :: doc where
  "minimal_execution_doc =
     [(''id'', PStr ''e3''),
      (''task_id'', PStr ''t3''),
      (''start_time'', PDate 5000),
      (''status'', PStr ''failed'')]"

definition minimal_execution :: TaskExecution where
  "minimal_execution =
     \<lparr> id_E = PStr ''e3'',
       task_id = PStr ''t3'',
       start_time = PDate 5000,
       end_time = PNone,
       status_E = FAILED,
       output_E = PNone,
       error_E = PNone,
       user_E = PNone \<rparr>"

definition db_minimal :: MongoDatabase where
  "db_minimal =
     \<lparr> tasks_collection = [minimal_task_doc], executions_collection = [minimal_execution_doc] \<rparr>"

definition task_micro :: Task where
  "task_micro = task_one\<lparr>created_at := PDate 1000123, updated_at := PDate 1999999\<rparr>"

definition task_micro_stored :: Task where
  "task_micro_stored = task_one\<lparr>created_at := PDate 1000000, updated_at := PDate 1999000\<rparr>"

definition db_micro :: MongoDatabase where
  "db_micro = \<lparr> tasks_collection = [task_doc task_micro_stored], executions_collection = [] \<rparr>"

definition nameless_doc :: doc where
  "nameless_doc =
     [(''id'', PStr ''t4''),
      (''schedule'', PStr ''@hourly''),
      (''type'', PStr ''command''),
      (''created_at'', PDate 1000),
      (''updated_at'', PDate 2000)]"

definition db_nameless :: MongoDatabase where
  "db_nameless = \<lparr> tasks_collection = [nameless_doc], executions_collection = [] \<rparr>"

definition db_minimal_mixed :: MongoDatabase where
  "db_minimal_mixed =
     \<lparr> tasks_collection = [minimal_task_doc, bogus_doc], executions_collection = [] \<rparr>"

definition tie_a :: TaskExecution where
  "tie_a = exec_running\<lparr>id_E := PStr ''a''\<rparr>"

definition tie_b :: TaskExecution where
  "tie_b = exec_running\<lparr>id_E := PStr ''b''\<rparr>"

definition db_tie :: MongoDatabase where
  "db_tie =
     \<lparr> tasks_collection = [task_doc task_one],
       executions_collection = [execution_doc tie_a, execution_doc tie_b] \<rparr>"

section \<open>Properties of message delivery\<close>

text \<open>
  C2. When \<^verbatim>\<open>user_id\<close> and \<^verbatim>\<open>conversation_id\<close> are both non-empty,
  \<^verbatim>\<open>send_task_result\<close> returns to its caller (it never raises), and the value it
  returns is true exactly when the POST to the task-result endpoint is answered with
  status 200; every other status, a timeout and a transport error give false.
\<close>

theorem send_task_result_true_iff_200:
  assumes "\<not> py_not user_id" and "\<not> py_not conv_id"
  shows "fst (send_task_result self net user_id conv_id task_name tid result task_type success)
         = Inr (\<exists>body. net (task_result_endpoint self)
                          (task_result_payload user_id conv_id task_name tid result task_type success)
                        = Response 200 body)"
  using assms
  by (auto simp: send_task_result_def post_task_result_def Let_def
           split: http_outcome.splits body_outcome.splits prod.splits sum.splits if_splits)

theorem send_task_result_true_iff_200_witness:
  "\<not> py_not (Some ''u1'') \<and> \<not> py_not (Some ''c1'')
   \<and> fst (send_task_result delivery_local net_ok (Some ''u1'') (Some ''c1'')
             ''backup'' ''t1'' ''done'' ''reminder'' True) = Inr True
   \<and> fst (send_task_result delivery_local net_500 (Some ''u1'') (Some ''c1'')
             ''backup'' ''t1'' ''done'' ''reminder'' True) = Inr False"
  using send_task_result_true_iff_200
          [of "Some ''u1''" "Some ''c1''" delivery_local net_ok
              "''backup''" "''t1''" "''done''" "''reminder''" True]
        send_task_result_true_iff_200
          [of "Some ''u1''" "Some ''c1''" delivery_local net_500
              "''backup''" "''t1''" "''done''" "''reminder''" True]
  by (simp add: net_ok_def net_500_def)

text \<open>
  C3. When \<^verbatim>\<open>user_id\<close> or \<^verbatim>\<open>conversation_id\<close> is empty or absent, both
  \<^verbatim>\<open>send_task_result\<close> and \<^verbatim>\<open>send_task_notification\<close> return false and make
  no HTTP request.
\<close>

theorem missing_recipient_no_network:
  assumes "py_not user_id \<or> py_not conv_id"
  shows "fst (send_task_result self net user_id conv_id task_name tid result task_type success)
           = Inr False
       \<and> filter is_HttpPost
           (snd (send_task_result self net user_id conv_id task_name tid result task_type success))
           = []
       \<and> fst (send_task_notification self net user_id conv_id task_name tid notification_type details)
           = Inr False
       \<and> filter is_HttpPost
           (snd (send_task_notification self net user_id conv_id task_name tid notification_type details))
           = []"
  using assms by (auto simp: send_task_result_def send_task_notification_def)

theorem missing_recipient_no_network_witness:
  "(py_not (Some ''u1'') \<or> py_not (Some ''''))
   \<and> fst (send_task_result delivery_local net_ok (Some ''u1'') (Some '''')
             ''backup'' ''t1'' ''done'' ''reminder'' True) = Inr False
   \<and> filter is_HttpPost
       (snd (send_task_result delivery_local net_ok (Some ''u1'') (Some '''')
               ''backup'' ''t1'' ''done'' ''reminder'' True)) = []
   \<and> fst (send_task_notification delivery_local net_ok (Some ''u1'') (Some '''')
             ''backup'' ''t1'' ''started'' None) = Inr False
   \<and> filter is_HttpPost
       (snd (send_task_notification delivery_local net_ok (Some ''u1'') (Some '''')
               ''backup'' ''t1'' ''started'' None)) = []"
  using missing_recipient_no_network
          [of "Some ''u1''" "Some ''''" delivery_local net_ok
              "''backup''" "''t1''" "''done''" "''reminder''" True "''started''" None]
  by simp

section \<open>Properties of the persistence layer\<close>

subsection \<open>Saving and reading back\<close>

lemma TaskType_of_value: "TaskType_of (PStr (TaskType_value ty)) = Inr ty"
  by (cases ty) (simp_all add: TaskType_of_def)

lemma TaskStatus_of_value: "TaskStatus_of (PStr (TaskStatus_value st)) = Inr st"
  by (cases st) (simp_all add: TaskStatus_of_def)

lemma doc_to_task_task_doc: "doc_to_task (task_doc t) = Inr t"
  by (simp add: doc_to_task_def task_doc_def doc_index_def doc_get_def try_bind_def
                TaskType_of_value TaskStatus_of_value)

lemma doc_to_execution_execution_doc: "doc_to_execution (execution_doc x) = Inr x"
  by (simp add: doc_to_execution_def execution_doc_def doc_index_def doc_get_def try_bind_def
                TaskStatus_of_value)

lemma bson_value_idem: "bson_value (bson_value v) = bson_value v"
  by (cases v) simp_all

lemma bson_document_task_doc: "bson_document (task_doc t) = task_doc (task_as_stored t)"
  by (simp add: bson_document_def task_doc_def task_as_stored_def)

lemma task_doc_matches_id: "doc_matches ''id'' (id_T t) (bson_document (task_doc t))"
  by (simp add: doc_matches_def task_doc_def bson_document_def)

lemma task_doc_nonempty: "task_doc t \<noteq> []"
  by (simp add: task_doc_def)

lemma find_replace_first:
  "p new \<Longrightarrow> replace_first p new ds = Some ds' \<Longrightarrow> find p ds' = Some new"
  by (induction ds arbitrary: ds') (auto split: if_splits option.splits)

lemma replace_first_None: "replace_first p new ds = None \<Longrightarrow> find p ds = None"
  by (induction ds) (auto split: if_splits option.splits)

lemma find_append_new: "find p ds = None \<Longrightarrow> p new \<Longrightarrow> find p (ds @ [new]) = Some new"
  by (induction ds) (auto split: if_splits)

lemma find_after_upsert:
  assumes "replace_one_upsert fault coll field v new = Inr coll'"
    and "doc_matches field v (bson_document new)"
  shows "find (doc_matches field v) coll' = Some (bson_document new)"
  using assms
  by (auto simp: replace_one_upsert_def find_replace_first replace_first_None find_append_new
           split: option.splits)

lemma save_task_stored:
  assumes "fst (save_task fault db t) = Inr db'"
  shows "find (doc_matches ''id'' (id_T t)) (tasks_collection db')
           = Some (task_doc (task_as_stored t))"
proof -
  from assms obtain coll where
    up: "replace_one_upsert fault (tasks_collection db) ''id'' (id_T t) (task_doc t) = Inr coll"
    and db': "db' = db\<lparr>tasks_collection := coll\<rparr>"
    by (auto simp: save_task_def split: sum.splits)
  from find_after_upsert [OF up task_doc_matches_id] db'
  show ?thesis by (simp add: bson_document_task_doc)
qed

lemma replace_first_split:
  "\<forall>d\<in>set pre. \<not> p d \<Longrightarrow> p old \<Longrightarrow>
     replace_first p new (pre @ old # post) = Some (pre @ new # post)"
  by (induction pre) auto

lemma comprehension_raises:
  "x \<in> set xs \<Longrightarrow> f x = Inl e \<Longrightarrow> \<exists>e'. comprehension f xs = Inl e'"
  by (induction xs) (auto split: sum.splits)

lemma cursor_list_find_all: "cursor_list None (cursor_find_all coll) = Inr coll"
  by (simp add: cursor_list_def cursor_find_all_def)

lemma cursor_list_find:
  "cursor_list None (cursor_find coll field v) = Inr (filter (doc_matches field v) coll)"
  by (simp add: cursor_list_def cursor_find_def)

lemma task_one_as_stored: "task_as_stored task_one = task_one"
  by (simp add: task_as_stored_def task_one_def)

lemma task_older_as_stored: "task_as_stored task_older = task_older"
  by (simp add: task_as_stored_def task_older_def task_one_def)

lemma task_micro_as_stored: "task_as_stored task_micro = task_micro_stored"
  by (simp add: task_as_stored_def task_micro_def task_micro_stored_def task_one_def)

lemma save_into_empty:
  "save_task None db_empty t
     = (Inr \<lparr> tasks_collection = [task_doc (task_as_stored t)], executions_collection = [] \<rparr>, [])"
  by (simp add: save_task_def replace_one_upsert_def db_empty_def bson_document_task_doc)

lemma save_over_task_one:
  assumes "id_T t = PStr ''t1''"
  shows "save_task None db_one t
     = (Inr \<lparr> tasks_collection = [task_doc (task_as_stored t)], executions_collection = [] \<rparr>, [])"
proof -
  have "doc_matches ''id'' (PStr ''t1'') (task_doc task_one)"
    by (simp add: doc_matches_def task_doc_def task_one_def)
  then show ?thesis
    using assms
    by (simp add: save_task_def replace_one_upsert_def db_one_def bson_document_task_doc)
qed

lemma get_task_single:
  assumes "id_T t = PStr tid"
  shows "get_task None \<lparr> tasks_collection = [task_doc t], executions_collection = [] \<rparr> tid
           = (Inr (Some t), [])"
proof -
  have "doc_matches ''id'' (PStr tid) (task_doc t)"
    using assms by (simp add: doc_matches_def task_doc_def)
  then show ?thesis
    by (simp add: get_task_def find_one_def try_bind_def task_doc_nonempty doc_to_task_task_doc)
qed

text \<open>
  C1, as stated, fails: a task whose timestamps carry microseconds comes back with
  them cut to whole milliseconds, so the task read is not the task saved.
\<close>

theorem roundtrip_loses_microseconds_counterexample:
  "fst (save_task None db_empty task_micro) = Inr db_micro
   \<and> get_task None db_micro ''t1'' = (Inr (Some task_micro_stored), [])
   \<and> created_at task_micro = PDate 1000123
   \<and> created_at task_micro_stored = PDate 1000000
   \<and> updated_at task_micro = PDate 1999999
   \<and> updated_at task_micro_stored = PDate 1999000
   \<and> task_micro_stored \<noteq> task_micro"
proof -
  have id: "id_T task_micro_stored = PStr ''t1''"
    by (simp add: task_micro_stored_def task_one_def)
  have "task_micro_stored \<noteq> task_micro"
    by (simp add: task_micro_stored_def task_micro_def task_one_def)
  then show ?thesis
    using get_task_single [OF id]
    by (simp add: save_into_empty task_micro_as_stored db_micro_def)
       (simp add: task_micro_stored_def task_micro_def)
qed

text \<open>
  C1, amended. After \<^verbatim>\<open>save_task(T)\<close> has succeeded, \<^verbatim>\<open>get_task(T.id)\<close> on the
  resulting database (the read itself not being hit by a driver failure) logs nothing
  and returns the task that has every field of \<open>T\<close> as the database keeps it: equal to
  \<open>T\<close> except that timestamps are cut to whole milliseconds, and so equal to \<open>T\<close> in
  every field when \<open>T\<close> carries no fraction of a millisecond. The identifier is a
  string, as the signature of \<^verbatim>\<open>get_task\<close> has it.
\<close>

theorem save_task_get_task_roundtrip:
  assumes "fst (save_task fault db t) = Inr db'" and "id_T t = PStr tid"
  shows "get_task None db' tid = (Inr (Some (task_as_stored t)), [])
       \<and> (task_as_stored t = t \<longrightarrow> get_task None db' tid = (Inr (Some t), []))"
proof -
  have "get_task None db' tid = (Inr (Some (task_as_stored t)), [])"
    using save_task_stored [OF assms(1)] assms(2)
    by (simp add: get_task_def find_one_def try_bind_def task_doc_nonempty doc_to_task_task_doc)
  then show ?thesis by simp
qed

theorem save_task_get_task_roundtrip_witness:
  "fst (save_task None db_empty task_one) = Inr db_one
   \<and> id_T task_one = PStr ''t1''
   \<and> task_as_stored task_one = task_one
   \<and> get_task None db_one ''t1'' = (Inr (Some task_one), [])
   \<and> fst (save_task None db_empty task_micro) = Inr db_micro
   \<and> id_T task_micro = PStr ''t1''
   \<and> task_as_stored task_micro = task_micro_stored
   \<and> get_task None db_micro ''t1'' = (Inr (Some task_micro_stored), [])"
proof -
  have s1: "fst (save_task None db_empty task_one) = Inr db_one"
    by (simp add: save_into_empty task_one_as_stored db_one_def)
  have s2: "fst (save_task None db_empty task_micro) = Inr db_micro"
    by (simp add: save_into_empty task_micro_as_stored db_micro_def)
  have i1: "id_T task_one = PStr ''t1''"
    by (simp add: task_one_def)
  have i2: "id_T task_micro = PStr ''t1''"
    by (simp add: task_micro_def task_one_def)
  from save_task_get_task_roundtrip [OF s1 i1] save_task_get_task_roundtrip [OF s2 i2]
  show ?thesis
    using s1 s2 i1 i2 by (simp add: task_one_as_stored task_micro_as_stored)
qed

text \<open>
  C6. A save whose identifier is already stored replaces the first record with that
  identifier by the new document as a whole: the collection afterwards is the old one
  with \<open>old\<close> exchanged for the document built from the new object (as the driver
  encodes it), so nothing of \<open>old\<close> (a field the new object leaves \<^verbatim>\<open>None\<close>, a
  field the new document does not have) is kept. This holds for tasks and for
  executions.
\<close>

theorem save_replaces_whole_record:
  "((\<forall>d\<in>set pre. \<not> doc_matches ''id'' (id_T task) d) \<and> doc_matches ''id'' (id_T task) old \<longrightarrow>
      save_task None (db\<lparr>tasks_collection := pre @ old # post\<rparr>) task
        = (Inr (db\<lparr>tasks_collection := pre @ bson_document (task_doc task) # post\<rparr>), []))
   \<and> ((\<forall>d\<in>set pre'. \<not> doc_matches ''id'' (id_E execution) d)
        \<and> doc_matches ''id'' (id_E execution) old' \<longrightarrow>
      save_execution None (db\<lparr>executions_collection := pre' @ old' # post'\<rparr>) execution
        = (Inr (db\<lparr>executions_collection :=
                     pre' @ bson_document (execution_doc execution) # post'\<rparr>), []))"
  by (simp add: save_task_def save_execution_def replace_one_upsert_def replace_first_split)

theorem save_replaces_whole_record_witness:
  "doc_matches ''id'' (id_T task_one) stale_doc
   \<and> tasks_collection db_stale = [] @ stale_doc # []
   \<and> save_task None db_stale task_one
        = (Inr (db_stale\<lparr>tasks_collection := [task_doc task_one]\<rparr>), [])
   \<and> bson_document (task_doc task_one) = task_doc task_one
   \<and> executions_collection db_stale = [] @ execution_doc exec_done # []
   \<and> doc_matches ''id'' (id_E exec_running) (execution_doc exec_done)
   \<and> save_execution None db_stale exec_running
        = (Inr (db_stale\<lparr>executions_collection := [execution_doc exec_running]\<rparr>), [])
   \<and> bson_document (execution_doc exec_running) = execution_doc exec_running"
proof -
  have m1: "doc_matches ''id'' (id_T task_one) stale_doc"
    by (simp add: doc_matches_def stale_doc_def task_one_def)
  have m2: "doc_matches ''id'' (id_E exec_running) (execution_doc exec_done)"
    by (simp add: doc_matches_def execution_doc_def exec_done_def exec_running_def)
  have e1: "bson_document (task_doc task_one) = task_doc task_one"
    by (simp add: bson_document_task_doc task_one_as_stored)
  have e2: "bson_document (execution_doc exec_running) = execution_doc exec_running"
    by (simp add: bson_document_def execution_doc_def exec_running_def)
  have c: "tasks_collection db_stale = [] @ stale_doc # []"
    "executions_collection db_stale = [] @ execution_doc exec_done # []"
    by (simp_all add: db_stale_def)
  have u: "db_stale\<lparr>tasks_collection := [stale_doc]\<rparr> = db_stale"
    "db_stale\<lparr>executions_collection := [execution_doc exec_done]\<rparr> = db_stale"
    by (simp_all add: db_stale_def)
  from save_replaces_whole_record
         [where pre = "[]" and task = task_one and old = stale_doc and post = "[]"
            and db = db_stale and pre' = "[]" and execution = exec_running
            and old' = "execution_doc exec_done" and post' = "[]"]
  show ?thesis
    using m1 m2 c by (simp add: u e1 e2)
qed

text \<open>
  C7, as stated, fails: \<^verbatim>\<open>save_task\<close> writes the \<^verbatim>\<open>updated_at\<close> of the
  object it is given. Saving the stored task again leaves the database as it was, with
  the same timestamp, and saving a copy with an earlier timestamp moves the stored one
  back from 1000000 to 500000.
\<close>

theorem updated_at_not_advanced_counterexample:
  "fst (get_task None db_one ''t1'') = Inr (Some task_one)
   \<and> updated_at task_one = PDate 1000000
   \<and> fst (save_task None db_one task_one) = Inr db_one
   \<and> fst (save_task None db_one task_older) = Inr db_older
   \<and> fst (get_task None db_older ''t1'') = Inr (Some task_older)
   \<and> updated_at task_older = PDate 500000"
proof -
  have i1: "id_T task_one = PStr ''t1''" and i2: "id_T task_older = PStr ''t1''"
    by (simp_all add: task_one_def task_older_def)
  have g1: "fst (get_task None db_one ''t1'') = Inr (Some task_one)"
    using get_task_single [OF i1] by (simp add: db_one_def)
  have g2: "fst (get_task None db_older ''t1'') = Inr (Some task_older)"
    using get_task_single [OF i2] by (simp add: db_older_def)
  have s1: "fst (save_task None db_one task_one) = Inr db_one"
    by (simp add: save_over_task_one [OF i1] task_one_as_stored) (simp add: db_one_def)
  have s2: "fst (save_task None db_one task_older) = Inr db_older"
    by (simp add: save_over_task_one [OF i2] task_older_as_stored) (simp add: db_older_def)
  have u: "updated_at task_one = PDate 1000000" "updated_at task_older = PDate 500000"
    by (simp_all add: task_one_def task_older_def)
  from g1 g2 s1 s2 u show ?thesis by simp
qed

text \<open>
  C7, amended. After a successful \<^verbatim>\<open>save_task\<close> the stored record carries the
  \<^verbatim>\<open>updated_at\<close> value of the saved object, cut to whole milliseconds as the
  database keeps every timestamp; the store does not advance it.
\<close>

theorem save_task_keeps_updated_at:
  assumes "fst (save_task fault db t) = Inr db'"
  shows "\<exists>d. find_one None (tasks_collection db') ''id'' (id_T t) = Inr (Some d)
            \<and> doc_index d ''updated_at'' = Inr (bson_value (updated_at t))"
  using save_task_stored [OF assms]
  by (simp add: find_one_def doc_index_def task_doc_def task_as_stored_def)

theorem save_task_keeps_updated_at_witness:
  "fst (save_task None db_one task_micro) = Inr db_micro
   \<and> updated_at task_micro = PDate 1999999
   \<and> bson_value (PDate 1999999) = PDate 1999000
   \<and> (\<exists>d. find_one None (tasks_collection db_micro) ''id'' (id_T task_micro) = Inr (Some d)
            \<and> doc_index d ''updated_at'' = Inr (PDate 1999000))"
proof -
  have i: "id_T task_micro = PStr ''t1''"
    by (simp add: task_micro_def task_one_def)
  have s: "fst (save_task None db_one task_micro) = Inr db_micro"
    by (simp add: save_over_task_one [OF i] task_micro_as_stored) (simp add: db_micro_def)
  have u: "updated_at task_micro = PDate 1999999"
    by (simp add: task_micro_def)
  from save_task_keeps_updated_at [OF s] show ?thesis
    using s u by simp
qed

subsection \<open>Failures\<close>

text \<open>
  C4, as stated, fails: a driver failure during \<^verbatim>\<open>get_task\<close> is caught and the
  call returns \<^verbatim>\<open>None\<close>, the value it also returns when no record exists, although
  the record is stored.
\<close>

theorem get_task_hides_connection_failure:
  "fst (get_task None db_one ''t1'') = Inr (Some task_one)
   \<and> fst (get_task (Some (ConnectionFailure ''connection refused'')) db_one ''t1'') = Inr None
   \<and> fst (get_task None db_empty ''t1'') = Inr None"
proof -
  have i: "id_T task_one = PStr ''t1''"
    by (simp add: task_one_def)
  have "fst (get_task None db_one ''t1'') = Inr (Some task_one)"
    using get_task_single [OF i] by (simp add: db_one_def)
  then show ?thesis
    by (simp add: get_task_def find_one_def try_bind_def db_empty_def)
qed

text \<open>
  C4, amended. When the driver raises \<open>e\<close>, the two save operations log and raise
  \<open>e\<close> itself to the caller; every read and \<^verbatim>\<open>delete_task\<close> log the failure and
  return their empty value (\<^verbatim>\<open>None\<close>, the empty list, \<^verbatim>\<open>False\<close> with the
  database unchanged).
\<close>

theorem driver_failure_outcomes:
  "save_task (Some e) db task
       = (Inl e, [Log ERROR ''Failed to save task {}: {}'' [AVal (id_T task), AExn e]])
   \<and> save_execution (Some e) db execution
       = (Inl e, [Log ERROR ''Failed to save execution {}: {}''
                    [AVal (id_E execution), AExn e]])
   \<and> get_task (Some e) db tid
       = (Inr None, [Log ERROR ''Failed to get task {}: {}'' [AStr tid, AExn e]])
   \<and> get_all_tasks (Some e) db
       = (Inr [], [Log ERROR ''Failed to get all tasks: {}'' [AExn e]])
   \<and> get_tasks_by_user (Some e) db uid
       = (Inr [], [Log ERROR ''Failed to get tasks for user {}: {}'' [AStr uid, AExn e]])
   \<and> delete_task (Some e) db tid
       = (Inr (False, db), [Log ERROR ''Failed to delete task {}: {}'' [AStr tid, AExn e]])
   \<and> get_executions (Some e) engine db tid lim
       = (Inr [], [Log ERROR ''Failed to get executions for task {}: {}'' [AStr tid, AExn e]])
   \<and> get_executions_by_user (Some e) engine db uid lim
       = (Inr [], [Log ERROR ''Failed to get executions for user {}: {}'' [AStr uid, AExn e]])"
  by (simp add: save_task_def save_execution_def get_task_def get_all_tasks_def
        get_tasks_by_user_def delete_task_def get_executions_def get_executions_by_user_def
        replace_one_upsert_def find_one_def delete_one_def cursor_list_def try_bind_def Let_def)

text \<open>
  C9, as stated, fails: with one well-formed record and one record whose type is the
  unknown string \<^verbatim>\<open>bogus\<close>, both scans return the empty list, not the
  well-formed task.
\<close>

theorem malformed_record_aborts_scan_counterexample:
  "doc_to_task (task_doc task_one) = Inr task_one
   \<and> doc_to_task bogus_doc = Inl (ValueError (PStr ''bogus'') ''TaskType'')
   \<and> tasks_collection db_mixed = [task_doc task_one, bogus_doc]
   \<and> fst (get_all_tasks None db_mixed) = Inr []
   \<and> fst (get_tasks_by_user None db_mixed ''u1'') = Inr []"
  by (simp add: doc_to_task_task_doc get_all_tasks_def get_tasks_by_user_def
        cursor_list_find_all cursor_list_find try_bind_def db_mixed_def)
     (simp add: bogus_doc_def doc_to_task_def doc_index_def TaskType_of_def try_bind_def
        doc_matches_def task_doc_def task_one_def)

text \<open>
  C9, amended. When a record that \<^verbatim>\<open>_doc_to_task\<close> cannot convert (an unknown
  type or status string among the causes) is in the scanned collection,
  \<^verbatim>\<open>get_all_tasks\<close> logs one error and returns the empty list, and so does
  \<^verbatim>\<open>get_tasks_by_user\<close> when the record belongs to that user; \<^verbatim>\<open>get_task\<close>
  for such a record logs the exception and returns \<^verbatim>\<open>None\<close>.
\<close>

theorem malformed_record_empties_scan:
  assumes "d \<in> set (tasks_collection db)" and "doc_to_task d = Inl e"
  shows "(\<exists>e'. get_all_tasks None db
                 = (Inr [], [Log ERROR ''Failed to get all tasks: {}'' [AExn e']]))
       \<and> (doc_matches ''user'' (PStr uid) d \<longrightarrow>
            (\<exists>e'. get_tasks_by_user None db uid
                     = (Inr [], [Log ERROR ''Failed to get tasks for user {}: {}''
                                   [AStr uid, AExn e']])))
       \<and> (find (doc_matches ''id'' (PStr tid)) (tasks_collection db) = Some d \<and> d \<noteq> [] \<longrightarrow>
            get_task None db tid
              = (Inr None, [Log ERROR ''Failed to get task {}: {}'' [AStr tid, AExn e]]))"
proof (intro conjI impI)
  from comprehension_raises [where f = doc_to_task, OF assms]
  obtain e' where "comprehension doc_to_task (tasks_collection db) = Inl e'" ..
  then show "\<exists>e'. get_all_tasks None db
                 = (Inr [], [Log ERROR ''Failed to get all tasks: {}'' [AExn e']])"
    by (simp add: get_all_tasks_def cursor_list_find_all try_bind_def)
next
  assume "doc_matches ''user'' (PStr uid) d"
  with assms(1) have
    "d \<in> set (filter (doc_matches ''user'' (PStr uid)) (tasks_collection db))"
    by simp
  from comprehension_raises [where f = doc_to_task, OF this assms(2)]
  obtain e' where
    "comprehension doc_to_task (filter (doc_matches ''user'' (PStr uid)) (tasks_collection db))
       = Inl e'" ..
  then show "\<exists>e'. get_tasks_by_user None db uid
                     = (Inr [], [Log ERROR ''Failed to get tasks for user {}: {}''
                                   [AStr uid, AExn e']])"
    by (simp add: get_tasks_by_user_def cursor_list_find try_bind_def)
next
  assume "find (doc_matches ''id'' (PStr tid)) (tasks_collection db) = Some d \<and> d \<noteq> []"
  with assms(2) show "get_task None db tid
              = (Inr None, [Log ERROR ''Failed to get task {}: {}'' [AStr tid, AExn e]])"
    by (simp add: get_task_def find_one_def try_bind_def)
qed

theorem malformed_record_empties_scan_witness:
  "bogus_doc \<in> set (tasks_collection db_mixed)
   \<and> doc_to_task bogus_doc = Inl (ValueError (PStr ''bogus'') ''TaskType'')
   \<and> doc_matches ''user'' (PStr ''u1'') bogus_doc
   \<and> find (doc_matches ''id'' (PStr ''t2'')) (tasks_collection db_mixed) = Some bogus_doc
   \<and> bogus_doc \<noteq> []
   \<and> (\<exists>e'. get_all_tasks None db_mixed
              = (Inr [], [Log ERROR ''Failed to get all tasks: {}'' [AExn e']]))
   \<and> (\<exists>e'. get_tasks_by_user None db_mixed ''u1''
              = (Inr [], [Log ERROR ''Failed to get tasks for user {}: {}''
                            [AStr ''u1'', AExn e']]))
   \<and> get_task None db_mixed ''t2''
        = (Inr None, [Log ERROR ''Failed to get task {}: {}''
                        [AStr ''t2'', AExn (ValueError (PStr ''bogus'') ''TaskType'')]])"
proof -
  have a: "bogus_doc \<in> set (tasks_collection db_mixed)"
    by (simp add: db_mixed_def)
  have b: "doc_to_task bogus_doc = Inl (ValueError (PStr ''bogus'') ''TaskType'')"
    by (simp add: bogus_doc_def doc_to_task_def doc_index_def TaskType_of_def try_bind_def)
  have c: "doc_matches ''user'' (PStr ''u1'') bogus_doc"
    by (simp add: bogus_doc_def doc_matches_def)
  have d: "find (doc_matches ''id'' (PStr ''t2'')) (tasks_collection db_mixed) = Some bogus_doc"
    by (simp add: db_mixed_def bogus_doc_def doc_matches_def task_doc_def task_one_def)
  have e: "bogus_doc \<noteq> []"
    by (simp add: bogus_doc_def)
  show ?thesis
    using malformed_record_empties_scan [OF a b, of "''u1''" "''t2''"] a b c d e by simp
qed

subsection \<open>Documents with missing fields\<close>

lemma comprehension_all_ok:
  "\<forall>x\<in>set xs. \<exists>y. f x = Inr y \<Longrightarrow>
     \<exists>ys. comprehension f xs = Inr ys \<and> list_all2 (\<lambda>x y. f x = Inr y) xs ys"
  by (induction xs) auto

lemma not_isl_Inr: "\<not> isl r \<Longrightarrow> \<exists>y. r = Inr y"
  by (cases r) simp_all

lemma TaskStatus_of_pending: "TaskStatus_of (PStr ''pending'') = Inr PENDING"
  by (simp add: TaskStatus_of_def)

lemma doc_get_present: "map_of d k = Some v \<Longrightarrow> doc_get d k dflt = v"
  by (simp add: doc_get_def)

lemma doc_get_absent: "map_of d k = None \<Longrightarrow> doc_get d k dflt = dflt"
  by (simp add: doc_get_def)

lemma required_task_fields_readable:
  assumes "required_task_fields d"
  shows "\<exists>t. doc_to_task d = Inr t
           \<and> map_of d ''id'' = Some (id_T t)
           \<and> map_of d ''name'' = Some (name t)
           \<and> map_of d ''schedule'' = Some (schedule t)
           \<and> TaskType_of (doc_get d ''type'' PNone) = Inr (type_T t)
           \<and> command t = doc_get d ''command'' PNone
           \<and> api_url t = doc_get d ''api_url'' PNone
           \<and> api_method t = doc_get d ''api_method'' PNone
           \<and> api_headers t = doc_get d ''api_headers'' PNone
           \<and> api_body t = doc_get d ''api_body'' PNone
           \<and> prompt t = doc_get d ''prompt'' PNone
           \<and> description t = doc_get d ''description'' PNone
           \<and> enabled t = doc_get d ''enabled'' (PBool True)
           \<and> do_only_once t = doc_get d ''do_only_once'' (PBool True)
           \<and> last_run t = doc_get d ''last_run'' PNone
           \<and> next_run t = doc_get d ''next_run'' PNone
           \<and> TaskStatus_of (doc_get d ''status'' (PStr ''pending'')) = Inr (status_T t)
           \<and> map_of d ''created_at'' = Some (created_at t)
           \<and> map_of d ''updated_at'' = Some (updated_at t)
           \<and> reminder_title t = doc_get d ''reminder_title'' PNone
           \<and> reminder_message t = doc_get d ''reminder_message'' PNone
           \<and> user_T t = doc_get d ''user'' PNone
           \<and> conversation_id t = doc_get d ''conversation_id'' PNone"
proof -
  from assms have
    present: "has_key d ''id''" "has_key d ''name''" "has_key d ''schedule''"
             "has_key d ''created_at''" "has_key d ''updated_at''"
    and ty_case: "case map_of d ''type'' of None \<Rightarrow> False | Some v \<Rightarrow> \<not> isl (TaskType_of v)"
    by (simp_all add: required_task_fields_def)
  from present obtain v_id v_name v_schedule v_created v_updated where
    keys: "map_of d ''id'' = Some v_id" "map_of d ''name'' = Some v_name"
          "map_of d ''schedule'' = Some v_schedule"
          "map_of d ''created_at'' = Some v_created" "map_of d ''updated_at'' = Some v_updated"
    unfolding has_key_def by blast
  from ty_case obtain v_type where
    key_type: "map_of d ''type'' = Some v_type" and ty_ok: "\<not> isl (TaskType_of v_type)"
    by (cases "map_of d ''type''") simp_all
  from not_isl_Inr [OF ty_ok] obtain ty where ty: "TaskType_of v_type = Inr ty" ..
  obtain st where
    st: "TaskStatus_of (doc_get d ''status'' (PStr (TaskStatus_value PENDING))) = Inr st"
  proof (cases "map_of d ''status''")
    case None
    then have "TaskStatus_of (doc_get d ''status'' (PStr (TaskStatus_value PENDING))) = Inr PENDING"
      by (simp add: doc_get_def TaskStatus_of_pending)
    then show thesis by (rule that)
  next
    case (Some v)
    with assms have "\<not> isl (TaskStatus_of v)"
      by (simp add: required_task_fields_def)
    from not_isl_Inr [OF this] obtain st' where "TaskStatus_of v = Inr st'" ..
    with Some have "TaskStatus_of (doc_get d ''status'' (PStr (TaskStatus_value PENDING))) = Inr st'"
      by (simp add: doc_get_def)
    then show thesis by (rule that)
  qed
  define t where "t = \<lparr> id_T = v_id,
           name = v_name,
           schedule = v_schedule,
           type_T = ty,
           command = doc_get d ''command'' PNone,
           api_url = doc_get d ''api_url'' PNone,
           api_method = doc_get d ''api_method'' PNone,
           api_headers = doc_get d ''api_headers'' PNone,
           api_body = doc_get d ''api_body'' PNone,
           prompt = doc_get d ''prompt'' PNone,
           description = doc_get d ''description'' PNone,
           enabled = doc_get d ''enabled'' (PBool True),
           do_only_once = doc_get d ''do_only_once'' (PBool True),
           last_run = doc_get d ''last_run'' PNone,
           next_run = doc_get d ''next_run'' PNone,
           status_T = st,
           created_at = v_created,
           updated_at = v_updated,
           reminder_title = doc_get d ''reminder_title'' PNone,
           reminder_message = doc_get d ''reminder_message'' PNone,
           user_T = doc_get d ''user'' PNone,
           conversation_id = doc_get d ''conversation_id'' PNone \<rparr>"
  have conv: "doc_to_task d = Inr t"
    unfolding doc_to_task_def doc_index_def try_bind_def t_def
    by (simp only: keys key_type ty st option.case sum.case)
  have ty': "TaskType_of (doc_get d ''type'' PNone) = Inr (type_T t)"
    using ty by (simp add: doc_get_present [OF key_type] t_def)
  have st': "TaskStatus_of (doc_get d ''status'' (PStr ''pending'')) = Inr (status_T t)"
    using st by (simp add: t_def)
  have req: "map_of d ''id'' = Some (id_T t)" "map_of d ''name'' = Some (name t)"
    "map_of d ''schedule'' = Some (schedule t)" "map_of d ''created_at'' = Some (created_at t)"
    "map_of d ''updated_at'' = Some (updated_at t)"
    using keys by (simp_all add: t_def)
  have opt: "command t = doc_get d ''command'' PNone"
    "api_url t = doc_get d ''api_url'' PNone"
    "api_method t = doc_get d ''api_method'' PNone"
    "api_headers t = doc_get d ''api_headers'' PNone"
    "api_body t = doc_get d ''api_body'' PNone"
    "prompt t = doc_get d ''prompt'' PNone"
    "description t = doc_get d ''description'' PNone"
    "enabled t = doc_get d ''enabled'' (PBool True)"
    "do_only_once t = doc_get d ''do_only_once'' (PBool True)"
    "last_run t = doc_get d ''last_run'' PNone"
    "next_run t = doc_get d ''next_run'' PNone"
    "reminder_title t = doc_get d ''reminder_title'' PNone"
    "reminder_message t = doc_get d ''reminder_message'' PNone"
    "user_T t = doc_get d ''user'' PNone"
    "conversation_id t = doc_get d ''conversation_id'' PNone"
    by (simp_all add: t_def)
  show ?thesis
    by (rule exI [of _ t]) (intro conjI conv req ty' st' opt)
qed

lemma required_execution_fields_readable:
  assumes "required_execution_fields d"
  shows "\<exists>x. doc_to_execution d = Inr x
           \<and> map_of d ''id'' = Some (id_E x)
           \<and> map_of d ''task_id'' = Some (task_id x)
           \<and> map_of d ''start_time'' = Some (start_time x)
           \<and> end_time x = doc_get d ''end_time'' PNone
           \<and> TaskStatus_of (doc_get d ''status'' PNone) = Inr (status_E x)
           \<and> output_E x = doc_get d ''output'' PNone
           \<and> error_E x = doc_get d ''error'' PNone
           \<and> user_E x = doc_get d ''user'' PNone"
proof -
  from assms have
    present: "has_key d ''id''" "has_key d ''task_id''" "has_key d ''start_time''"
    and st_case: "case map_of d ''status'' of None \<Rightarrow> False | Some v \<Rightarrow> \<not> isl (TaskStatus_of v)"
    by (simp_all add: required_execution_fields_def)
  from present obtain v_id v_task v_start where
    keys: "map_of d ''id'' = Some v_id" "map_of d ''task_id'' = Some v_task"
          "map_of d ''start_time'' = Some v_start"
    unfolding has_key_def by blast
  from st_case obtain v_status where
    key_status: "map_of d ''status'' = Some v_status" and st_ok: "\<not> isl (TaskStatus_of v_status)"
    by (cases "map_of d ''status''") simp_all
  from not_isl_Inr [OF st_ok] obtain st where st: "TaskStatus_of v_status = Inr st" ..
  define x where "x = \<lparr> id_E = v_id,
           task_id = v_task,
           start_time = v_start,
           end_time = doc_get d ''end_time'' PNone,
           status_E = st,
           output_E = doc_get d ''output'' PNone,
           error_E = doc_get d ''error'' PNone,
           user_E = doc_get d ''user'' PNone \<rparr>"
  have conv: "doc_to_execution d = Inr x"
    unfolding doc_to_execution_def doc_index_def try_bind_def x_def
    by (simp only: keys key_status st option.case sum.case)
  have st': "TaskStatus_of (doc_get d ''status'' PNone) = Inr (status_E x)"
    using st by (simp add: doc_get_present [OF key_status] x_def)
  have req: "map_of d ''id'' = Some (id_E x)" "map_of d ''task_id'' = Some (task_id x)"
    "map_of d ''start_time'' = Some (start_time x)"
    using keys by (simp_all add: x_def)
  have opt: "end_time x = doc_get d ''end_time'' PNone"
    "output_E x = doc_get d ''output'' PNone"
    "error_E x = doc_get d ''error'' PNone"
    "user_E x = doc_get d ''user'' PNone"
    by (simp_all add: x_def)
  show ?thesis
    by (rule exI [of _ x]) (intro conjI conv req st' opt)
qed

lemma required_task_fields_nonempty: "required_task_fields d \<Longrightarrow> d \<noteq> []"
  by (auto simp: required_task_fields_def has_key_def)

lemma minimal_task_doc_converts: "doc_to_task minimal_task_doc = Inr minimal_task"
  by (simp add: minimal_task_doc_def minimal_task_def doc_to_task_def doc_index_def
        doc_get_def try_bind_def TaskType_of_def TaskStatus_of_def)

lemma bogus_doc_raises:
  "doc_to_task bogus_doc = Inl (ValueError (PStr ''bogus'') ''TaskType'')"
  by (simp add: bogus_doc_def doc_to_task_def doc_index_def TaskType_of_def try_bind_def)

text \<open>
  C10, as stated, fails: lacking \<^verbatim>\<open>enabled\<close>, \<^verbatim>\<open>do_only_once\<close> or
  \<^verbatim>\<open>status\<close> does not by itself make a read succeed. A document that lacks them
  and also lacks \<^verbatim>\<open>name\<close> cannot be read by \<^verbatim>\<open>get_task\<close>, which returns
  \<^verbatim>\<open>None\<close>; and a readable document that lacks them is not returned by
  \<^verbatim>\<open>get_all_tasks\<close> when another stored document is malformed.
\<close>

theorem missing_required_field_counterexample:
  "map_of nameless_doc ''enabled'' = None
   \<and> map_of nameless_doc ''do_only_once'' = None
   \<and> map_of nameless_doc ''status'' = None
   \<and> tasks_collection db_nameless = [nameless_doc]
   \<and> get_task None db_nameless ''t4''
        = (Inr None, [Log ERROR ''Failed to get task {}: {}''
                        [AStr ''t4'', AExn (KeyError ''name'')]])
   \<and> map_of minimal_task_doc ''enabled'' = None
   \<and> doc_to_task minimal_task_doc = Inr minimal_task
   \<and> tasks_collection db_minimal_mixed = [minimal_task_doc, bogus_doc]
   \<and> fst (get_all_tasks None db_minimal_mixed) = Inr []"
proof -
  have absent: "map_of nameless_doc ''enabled'' = None"
    "map_of nameless_doc ''do_only_once'' = None"
    "map_of nameless_doc ''status'' = None"
    "map_of minimal_task_doc ''enabled'' = None"
    by (simp_all add: nameless_doc_def minimal_task_doc_def)
  have colls: "tasks_collection db_nameless = [nameless_doc]"
    "tasks_collection db_minimal_mixed = [minimal_task_doc, bogus_doc]"
    by (simp_all add: db_nameless_def db_minimal_mixed_def)
  have conv: "doc_to_task nameless_doc = Inl (KeyError ''name'')"
    by (simp add: nameless_doc_def doc_to_task_def doc_index_def try_bind_def)
  have found: "doc_matches ''id'' (PStr ''t4'') nameless_doc"
    by (simp add: doc_matches_def nameless_doc_def)
  have ne: "nameless_doc \<noteq> []"
    by (simp add: nameless_doc_def)
  have g: "get_task None db_nameless ''t4''
        = (Inr None, [Log ERROR ''Failed to get task {}: {}''
                        [AStr ''t4'', AExn (KeyError ''name'')]])"
    by (simp add: get_task_def find_one_def try_bind_def colls found ne conv)
  have s: "fst (get_all_tasks None db_minimal_mixed) = Inr []"
    by (simp add: get_all_tasks_def cursor_list_find_all try_bind_def colls
          minimal_task_doc_converts bogus_doc_raises)
  from absent colls g s minimal_task_doc_converts show ?thesis by simp
qed

text \<open>
  C10, amended. A stored task document that has \<^verbatim>\<open>id\<close>, \<^verbatim>\<open>name\<close>,
  \<^verbatim>\<open>schedule\<close>, \<^verbatim>\<open>created_at\<close>, \<^verbatim>\<open>updated_at\<close>, a valid \<^verbatim>\<open>type\<close> and, if
  it has a status, a valid one, is read successfully: the task returned has the
  document's value in every field, and a missing \<^verbatim>\<open>enabled\<close>, \<^verbatim>\<open>do_only_once\<close>
  or \<^verbatim>\<open>status\<close> field is true, true and pending, a missing optional field
  \<^verbatim>\<open>None\<close>. \<^verbatim>\<open>get_task\<close> returns that task, and the two scans return the tasks
  of all the documents they select when every selected document is of that kind. A
  stored execution document that has \<^verbatim>\<open>id\<close>, \<^verbatim>\<open>task_id\<close>, \<^verbatim>\<open>start_time\<close>
  and a valid \<^verbatim>\<open>status\<close> is read with the document's values, a missing
  \<^verbatim>\<open>end_time\<close>, \<^verbatim>\<open>output\<close>, \<^verbatim>\<open>error\<close> or \<^verbatim>\<open>user\<close> as \<^verbatim>\<open>None\<close>.
\<close>

theorem absent_fields_take_defaults:
  "(required_task_fields d \<longrightarrow>
      (\<exists>t. doc_to_task d = Inr t
          \<and> map_of d ''id'' = Some (id_T t)
          \<and> map_of d ''name'' = Some (name t)
          \<and> map_of d ''schedule'' = Some (schedule t)
          \<and> TaskType_of (doc_get d ''type'' PNone) = Inr (type_T t)
          \<and> command t = doc_get d ''command'' PNone
          \<and> api_url t = doc_get d ''api_url'' PNone
          \<and> api_method t = doc_get d ''api_method'' PNone
          \<and> api_headers t = doc_get d ''api_headers'' PNone
          \<and> api_body t = doc_get d ''api_body'' PNone
          \<and> prompt t = doc_get d ''prompt'' PNone
          \<and> description t = doc_get d ''description'' PNone
          \<and> enabled t = doc_get d ''enabled'' (PBool True)
          \<and> do_only_once t = doc_get d ''do_only_once'' (PBool True)
          \<and> last_run t = doc_get d ''last_run'' PNone
          \<and> next_run t = doc_get d ''next_run'' PNone
          \<and> TaskStatus_of (doc_get d ''status'' (PStr ''pending'')) = Inr (status_T t)
          \<and> map_of d ''created_at'' = Some (created_at t)
          \<and> map_of d ''updated_at'' = Some (updated_at t)
          \<and> reminder_title t = doc_get d ''reminder_title'' PNone
          \<and> reminder_message t = doc_get d ''reminder_message'' PNone
          \<and> user_T t = doc_get d ''user'' PNone
          \<and> conversation_id t = doc_get d ''conversation_id'' PNone
          \<and> (map_of d ''enabled'' = None \<longrightarrow> enabled t = PBool True)
          \<and> (map_of d ''do_only_once'' = None \<longrightarrow> do_only_once t = PBool True)
          \<and> (map_of d ''status'' = None \<longrightarrow> status_T t = PENDING)
          \<and> (find (doc_matches ''id'' (PStr tid)) (tasks_collection db) = Some d \<longrightarrow>
                get_task None db tid = (Inr (Some t), []))))
   \<and> (list_all required_task_fields (tasks_collection db) \<longrightarrow>
        (\<exists>ts. get_all_tasks None db = (Inr ts, [])
            \<and> list_all2 (\<lambda>d t. doc_to_task d = Inr t) (tasks_collection db) ts))
   \<and> (list_all required_task_fields
         (filter (doc_matches ''user'' (PStr uid)) (tasks_collection db)) \<longrightarrow>
        (\<exists>ts. get_tasks_by_user None db uid = (Inr ts, [])
            \<and> list_all2 (\<lambda>d t. doc_to_task d = Inr t)
                 (filter (doc_matches ''user'' (PStr uid)) (tasks_collection db)) ts))
   \<and> (required_execution_fields x \<longrightarrow>
        (\<exists>e. doc_to_execution x = Inr e
            \<and> map_of x ''id'' = Some (id_E e)
            \<and> map_of x ''task_id'' = Some (task_id e)
            \<and> map_of x ''start_time'' = Some (start_time e)
            \<and> end_time e = doc_get x ''end_time'' PNone
            \<and> TaskStatus_of (doc_get x ''status'' PNone) = Inr (status_E e)
            \<and> output_E e = doc_get x ''output'' PNone
            \<and> error_E e = doc_get x ''error'' PNone
            \<and> user_E e = doc_get x ''user'' PNone
            \<and> (map_of x ''end_time'' = None \<longrightarrow> end_time e = PNone)
            \<and> (map_of x ''output'' = None \<longrightarrow> output_E e = PNone)
            \<and> (map_of x ''error'' = None \<longrightarrow> error_E e = PNone)
            \<and> (map_of x ''user'' = None \<longrightarrow> user_E e = PNone)))"
proof (intro conjI impI)
  assume wf: "required_task_fields d"
  from required_task_fields_readable [OF wf] obtain t where
    t: "doc_to_task d = Inr t
           \<and> map_of d ''id'' = Some (id_T t)
           \<and> map_of d ''name'' = Some (name t)
           \<and> map_of d ''schedule'' = Some (schedule t)
           \<and> TaskType_of (doc_get d ''type'' PNone) = Inr (type_T t)
           \<and> command t = doc_get d ''command'' PNone
           \<and> api_url t = doc_get d ''api_url'' PNone
           \<and> api_method t = doc_get d ''api_method'' PNone
           \<and> api_headers t = doc_get d ''api_headers'' PNone
           \<and> api_body t = doc_get d ''api_body'' PNone
           \<and> prompt t = doc_get d ''prompt'' PNone
           \<and> description t = doc_get d ''description'' PNone
           \<and> enabled t = doc_get d ''enabled'' (PBool True)
           \<and> do_only_once t = doc_get d ''do_only_once'' (PBool True)
           \<and> last_run t = doc_get d ''last_run'' PNone
           \<and> next_run t = doc_get d ''next_run'' PNone
           \<and> TaskStatus_of (doc_get d ''status'' (PStr ''pending'')) = Inr (status_T t)
           \<and> map_of d ''created_at'' = Some (created_at t)
           \<and> map_of d ''updated_at'' = Some (updated_at t)
           \<and> reminder_title t = doc_get d ''reminder_title'' PNone
           \<and> reminder_message t = doc_get d ''reminder_message'' PNone
           \<and> user_T t = doc_get d ''user'' PNone
           \<and> conversation_id t = doc_get d ''conversation_id'' PNone" ..
  from t have conv: "doc_to_task d = Inr t"
    and en0: "enabled t = doc_get d ''enabled'' (PBool True)"
    and once0: "do_only_once t = doc_get d ''do_only_once'' (PBool True)"
    and st0: "TaskStatus_of (doc_get d ''status'' (PStr ''pending'')) = Inr (status_T t)"
    by simp_all
  have en: "map_of d ''enabled'' = None \<longrightarrow> enabled t = PBool True"
    using en0 by (simp add: doc_get_def)
  have once: "map_of d ''do_only_once'' = None \<longrightarrow> do_only_once t = PBool True"
    using once0 by (simp add: doc_get_def)
  have st: "map_of d ''status'' = None \<longrightarrow> status_T t = PENDING"
  proof
    assume "map_of d ''status'' = None"
    from st0 show "status_T t = PENDING"
      by (simp add: doc_get_absent [OF \<open>map_of d ''status'' = None\<close>] TaskStatus_of_pending)
  qed
  have read: "find (doc_matches ''id'' (PStr tid)) (tasks_collection db) = Some d \<longrightarrow>
          get_task None db tid = (Inr (Some t), [])"
    using conv required_task_fields_nonempty [OF wf]
    by (simp add: get_task_def find_one_def try_bind_def)
  have extras: "(map_of d ''enabled'' = None \<longrightarrow> enabled t = PBool True)
          \<and> (map_of d ''do_only_once'' = None \<longrightarrow> do_only_once t = PBool True)
          \<and> (map_of d ''status'' = None \<longrightarrow> status_T t = PENDING)
          \<and> (find (doc_matches ''id'' (PStr tid)) (tasks_collection db) = Some d \<longrightarrow>
                get_task None db tid = (Inr (Some t), []))"
    by (intro conjI en once st read)
  show "\<exists>t. doc_to_task d = Inr t
          \<and> map_of d ''id'' = Some (id_T t)
          \<and> map_of d ''name'' = Some (name t)
          \<and> map_of d ''schedule'' = Some (schedule t)
          \<and> TaskType_of (doc_get d ''type'' PNone) = Inr (type_T t)
          \<and> command t = doc_get d ''command'' PNone
          \<and> api_url t = doc_get d ''api_url'' PNone
          \<and> api_method t = doc_get d ''api_method'' PNone
          \<and> api_headers t = doc_get d ''api_headers'' PNone
          \<and> api_body t = doc_get d ''api_body'' PNone
          \<and> prompt t = doc_get d ''prompt'' PNone
          \<and> description t = doc_get d ''description'' PNone
          \<and> enabled t = doc_get d ''enabled'' (PBool True)
          \<and> do_only_once t = doc_get d ''do_only_once'' (PBool True)
          \<and> last_run t = doc_get d ''last_run'' PNone
          \<and> next_run t = doc_get d ''next_run'' PNone
          \<and> TaskStatus_of (doc_get d ''status'' (PStr ''pending'')) = Inr (status_T t)
          \<and> map_of d ''created_at'' = Some (created_at t)
          \<and> map_of d ''updated_at'' = Some (updated_at t)
          \<and> reminder_title t = doc_get d ''reminder_title'' PNone
          \<and> reminder_message t = doc_get d ''reminder_message'' PNone
          \<and> user_T t = doc_get d ''user'' PNone
          \<and> conversation_id t = doc_get d ''conversation_id'' PNone
          \<and> (map_of d ''enabled'' = None \<longrightarrow> enabled t = PBool True)
          \<and> (map_of d ''do_only_once'' = None \<longrightarrow> do_only_once t = PBool True)
          \<and> (map_of d ''status'' = None \<longrightarrow> status_T t = PENDING)
          \<and> (find (doc_matches ''id'' (PStr tid)) (tasks_collection db) = Some d \<longrightarrow>
                get_task None db tid = (Inr (Some t), []))"
    using t extras by (intro exI [of _ t]) (simp only: simp_thms)
next
  assume all: "list_all required_task_fields (tasks_collection db)"
  have "\<forall>d\<in>set (tasks_collection db). \<exists>t. doc_to_task d = Inr t"
  proof
    fix d assume "d \<in> set (tasks_collection db)"
    with all have "required_task_fields d" by (simp add: list_all_iff)
    from required_task_fields_readable [OF this] show "\<exists>t. doc_to_task d = Inr t"
      by (elim exE conjE) (rule exI)
  qed
  from comprehension_all_ok [OF this] obtain ts where
    "comprehension doc_to_task (tasks_collection db) = Inr ts"
    "list_all2 (\<lambda>d t. doc_to_task d = Inr t) (tasks_collection db) ts"
    by (elim exE conjE)
  then show "\<exists>ts. get_all_tasks None db = (Inr ts, [])
            \<and> list_all2 (\<lambda>d t. doc_to_task d = Inr t) (tasks_collection db) ts"
    by (simp add: get_all_tasks_def cursor_list_find_all try_bind_def)
next
  let ?sel = "filter (doc_matches ''user'' (PStr uid)) (tasks_collection db)"
  assume all: "list_all required_task_fields ?sel"
  have "\<forall>d\<in>set ?sel. \<exists>t. doc_to_task d = Inr t"
  proof
    fix d assume "d \<in> set ?sel"
    with all have "required_task_fields d" by (simp add: list_all_iff)
    from required_task_fields_readable [OF this] show "\<exists>t. doc_to_task d = Inr t"
      by (elim exE conjE) (rule exI)
  qed
  from comprehension_all_ok [OF this] obtain ts where
    "comprehension doc_to_task ?sel = Inr ts"
    "list_all2 (\<lambda>d t. doc_to_task d = Inr t) ?sel ts"
    by (elim exE conjE)
  then show "\<exists>ts. get_tasks_by_user None db uid = (Inr ts, [])
            \<and> list_all2 (\<lambda>d t. doc_to_task d = Inr t) ?sel ts"
    by (simp add: get_tasks_by_user_def cursor_list_find try_bind_def)
next
  assume "required_execution_fields x"
  from required_execution_fields_readable [OF this] obtain e where
    e: "doc_to_execution x = Inr e
           \<and> map_of x ''id'' = Some (id_E e)
           \<and> map_of x ''task_id'' = Some (task_id e)
           \<and> map_of x ''start_time'' = Some (start_time e)
           \<and> end_time e = doc_get x ''end_time'' PNone
           \<and> TaskStatus_of (doc_get x ''status'' PNone) = Inr (status_E e)
           \<and> output_E e = doc_get x ''output'' PNone
           \<and> error_E e = doc_get x ''error'' PNone
           \<and> user_E e = doc_get x ''user'' PNone" ..
  from e have opt: "end_time e = doc_get x ''end_time'' PNone"
    "output_E e = doc_get x ''output'' PNone" "error_E e = doc_get x ''error'' PNone"
    "user_E e = doc_get x ''user'' PNone"
    by simp_all
  have extras: "(map_of x ''end_time'' = None \<longrightarrow> end_time e = PNone)
            \<and> (map_of x ''output'' = None \<longrightarrow> output_E e = PNone)
            \<and> (map_of x ''error'' = None \<longrightarrow> error_E e = PNone)
            \<and> (map_of x ''user'' = None \<longrightarrow> user_E e = PNone)"
    using opt by (simp add: doc_get_def)
  show "\<exists>e. doc_to_execution x = Inr e
            \<and> map_of x ''id'' = Some (id_E e)
            \<and> map_of x ''task_id'' = Some (task_id e)
            \<and> map_of x ''start_time'' = Some (start_time e)
            \<and> end_time e = doc_get x ''end_time'' PNone
            \<and> TaskStatus_of (doc_get x ''status'' PNone) = Inr (status_E e)
            \<and> output_E e = doc_get x ''output'' PNone
            \<and> error_E e = doc_get x ''error'' PNone
            \<and> user_E e = doc_get x ''user'' PNone
            \<and> (map_of x ''end_time'' = None \<longrightarrow> end_time e = PNone)
            \<and> (map_of x ''output'' = None \<longrightarrow> output_E e = PNone)
            \<and> (map_of x ''error'' = None \<longrightarrow> error_E e = PNone)
            \<and> (map_of x ''user'' = None \<longrightarrow> user_E e = PNone)"
    using e extras by (intro exI [of _ e]) (simp only: simp_thms)
qed

theorem absent_fields_take_defaults_witness:
  "required_task_fields minimal_task_doc
   \<and> map_of minimal_task_doc ''enabled'' = None
   \<and> map_of minimal_task_doc ''do_only_once'' = None
   \<and> map_of minimal_task_doc ''status'' = None
   \<and> find (doc_matches ''id'' (PStr ''t3'')) (tasks_collection db_minimal) = Some minimal_task_doc
   \<and> list_all required_task_fields (tasks_collection db_minimal)
   \<and> list_all required_task_fields
        (filter (doc_matches ''user'' (PStr ''u3'')) (tasks_collection db_minimal))
   \<and> required_execution_fields minimal_execution_doc
   \<and> map_of minimal_execution_doc ''end_time'' = None
   \<and> map_of minimal_execution_doc ''output'' = None
   \<and> map_of minimal_execution_doc ''error'' = None
   \<and> map_of minimal_execution_doc ''user'' = None
   \<and> doc_to_task minimal_task_doc = Inr minimal_task
   \<and> enabled minimal_task = PBool True
   \<and> do_only_once minimal_task = PBool True
   \<and> status_T minimal_task = PENDING
   \<and> get_task None db_minimal ''t3'' = (Inr (Some minimal_task), [])
   \<and> get_all_tasks None db_minimal = (Inr [minimal_task], [])
   \<and> get_tasks_by_user None db_minimal ''u3'' = (Inr [minimal_task], [])
   \<and> doc_to_execution minimal_execution_doc = Inr minimal_execution
   \<and> end_time minimal_execution = PNone
   \<and> output_E minimal_execution = PNone
   \<and> error_E minimal_execution = PNone
   \<and> user_E minimal_execution = PNone"
proof -
  note t = minimal_task_doc_converts
  have x: "doc_to_execution minimal_execution_doc = Inr minimal_execution"
    by (simp add: minimal_execution_doc_def minimal_execution_def doc_to_execution_def
          doc_index_def doc_get_def try_bind_def TaskStatus_of_def)
  have wf: "required_task_fields minimal_task_doc"
    by (simp add: required_task_fields_def has_key_def minimal_task_doc_def TaskType_of_def)
  have wfx: "required_execution_fields minimal_execution_doc"
    by (simp add: required_execution_fields_def has_key_def minimal_execution_doc_def
          TaskStatus_of_def)
  have coll: "tasks_collection db_minimal = [minimal_task_doc]"
    by (simp add: db_minimal_def)
  have m_id: "doc_matches ''id'' (PStr ''t3'') minimal_task_doc"
    and m_user: "doc_matches ''user'' (PStr ''u3'') minimal_task_doc"
    by (simp_all add: doc_matches_def minimal_task_doc_def)
  have f: "find (doc_matches ''id'' (PStr ''t3'')) (tasks_collection db_minimal)
             = Some minimal_task_doc"
    using m_id by (simp add: coll)
  have sel: "filter (doc_matches ''user'' (PStr ''u3'')) (tasks_collection db_minimal)
               = [minimal_task_doc]"
    using m_user by (simp add: coll)
  have absent: "map_of minimal_task_doc ''enabled'' = None"
    "map_of minimal_task_doc ''do_only_once'' = None"
    "map_of minimal_task_doc ''status'' = None"
    "map_of minimal_execution_doc ''end_time'' = None"
    "map_of minimal_execution_doc ''output'' = None"
    "map_of minimal_execution_doc ''error'' = None"
    "map_of minimal_execution_doc ''user'' = None"
    by (simp_all add: minimal_task_doc_def minimal_execution_doc_def)
  have fields: "enabled minimal_task = PBool True" "do_only_once minimal_task = PBool True"
    "status_T minimal_task = PENDING" "end_time minimal_execution = PNone"
    "output_E minimal_execution = PNone" "error_E minimal_execution = PNone"
    "user_E minimal_execution = PNone"
    by (simp_all add: minimal_task_def minimal_execution_def)
  have all_wf: "list_all required_task_fields (tasks_collection db_minimal)"
    using wf by (simp add: coll)
  have sel_wf: "list_all required_task_fields
        (filter (doc_matches ''user'' (PStr ''u3'')) (tasks_collection db_minimal))"
    using wf by (simp add: sel)
  note inst = absent_fields_take_defaults
         [where d = minimal_task_doc and tid = "''t3''" and db = db_minimal
            and x = minimal_execution_doc and uid = "''u3''"]
  from inst [THEN conjunct1, THEN mp, OF wf] obtain t' where
    t': "doc_to_task minimal_task_doc = Inr t'"
        "find (doc_matches ''id'' (PStr ''t3'')) (tasks_collection db_minimal)
           = Some minimal_task_doc \<longrightarrow>
         get_task None db_minimal ''t3'' = (Inr (Some t'), [])"
    by (elim exE conjE) (rule that)
  from t'(1) t have "t' = minimal_task" by simp
  with t'(2) f have g: "get_task None db_minimal ''t3'' = (Inr (Some minimal_task), [])"
    by simp
  from inst [THEN conjunct2, THEN conjunct1, THEN mp, OF all_wf] obtain ts where
    ts: "get_all_tasks None db_minimal = (Inr ts, [])"
        "list_all2 (\<lambda>d t. doc_to_task d = Inr t) (tasks_collection db_minimal) ts"
    by (elim exE conjE)
  from ts(2) t have "ts = [minimal_task]"
    by (auto simp: coll list_all2_Cons1)
  with ts(1) have ga: "get_all_tasks None db_minimal = (Inr [minimal_task], [])"
    by simp
  from inst [THEN conjunct2, THEN conjunct2, THEN conjunct1, THEN mp, OF sel_wf] obtain us where
    us: "get_tasks_by_user None db_minimal ''u3'' = (Inr us, [])"
        "list_all2 (\<lambda>d t. doc_to_task d = Inr t)
           (filter (doc_matches ''user'' (PStr ''u3'')) (tasks_collection db_minimal)) us"
    by (elim exE conjE)
  from us(2) t have "us = [minimal_task]"
    by (auto simp: sel list_all2_Cons1)
  with us(1) have gu: "get_tasks_by_user None db_minimal ''u3'' = (Inr [minimal_task], [])"
    by simp
  from t x wf wfx f absent all_wf sel_wf fields g ga gu show ?thesis by simp
qed

subsection \<open>Execution history\<close>

lemma bson_key_dates: "bson_key (PDate a) \<le> bson_key (PDate b) \<longleftrightarrow> a \<le> b"
  by auto

lemma bson_key_inj: "bson_key v = bson_key w \<Longrightarrow> v = w"
  by (cases v; cases w) (simp_all split: if_splits)

lemma comprehension_ok:
  "comprehension f xs = Inr ys \<Longrightarrow> list_all2 (\<lambda>x y. f x = Inr y) xs ys"
  by (induction xs arbitrary: ys) (auto split: sum.splits)

lemma doc_to_execution_fields:
  assumes "doc_to_execution d = Inr x"
  shows "map_of d ''task_id'' = Some (task_id x)"
    and "doc_get d ''start_time'' PNone = start_time x"
    and "doc_get d ''user'' PNone = user_E x"
  using assms
  by (auto simp: doc_to_execution_def doc_index_def doc_get_def try_bind_def
           split: option.splits sum.splits)

lemma sorts_descendingD:
  assumes "sorts_descending engine"
  shows "mset (engine key ds) = mset ds"
    and "sorted_wrt (\<lambda>a b. key b \<le> key a) (engine key ds)"
  using assms by (simp_all add: sorts_descending_def)

lemma ties_in_insertion_order_sorts: "sorts_descending ties_in_insertion_order"
  unfolding sorts_descending_def
proof (intro allI conjI)
  fix key :: "doc \<Rightarrow> sort_key" and ds :: "doc list"
  show "mset (ties_in_insertion_order key ds) = mset ds"
    by (simp add: ties_in_insertion_order_def)
  have "sorted (map key (sort_key key (rev ds)))"
    by (rule sorted_sort_key)
  then have "sorted_wrt (\<lambda>a b. key a \<le> key b) (sort_key key (rev ds))"
    by (simp add: sorted_wrt_map)
  then show "sorted_wrt (\<lambda>a b. key b \<le> key a) (ties_in_insertion_order key ds)"
    by (simp add: ties_in_insertion_order_def sorted_wrt_rev)
qed

lemma ties_in_reverse_order_sorts: "sorts_descending ties_in_reverse_order"
  unfolding sorts_descending_def
proof (intro allI conjI)
  fix key :: "doc \<Rightarrow> sort_key" and ds :: "doc list"
  show "mset (ties_in_reverse_order key ds) = mset ds"
    by (simp add: ties_in_reverse_order_def)
  have "sorted (map key (sort_key key ds))"
    by (rule sorted_sort_key)
  then have "sorted_wrt (\<lambda>a b. key a \<le> key b) (sort_key key ds)"
    by (simp add: sorted_wrt_map)
  then show "sorted_wrt (\<lambda>a b. key b \<le> key a) (ties_in_reverse_order key ds)"
    by (simp add: ties_in_reverse_order_def sorted_wrt_rev)
qed

lemma list_all2_preimage:
  "list_all2 R xs ys \<Longrightarrow> y \<in> set ys \<Longrightarrow> \<exists>x\<in>set xs. R x y"
  by (induction rule: list_all2_induct) auto

lemma sorted_wrt_list_all2:
  assumes "list_all2 R xs ys" and "sorted_wrt P xs"
    and "\<And>x y x' y'. R x y \<Longrightarrow> R x' y' \<Longrightarrow> P x x' \<Longrightarrow> Q y y'"
  shows "sorted_wrt Q ys"
  using assms(1,2)
proof (induction rule: list_all2_induct)
  case Nil
  then show ?case by simp
next
  case (Cons x xs y ys)
  have "Q y y'" if "y' \<in> set ys" for y'
  proof -
    from list_all2_preimage [OF Cons.hyps(2) that] obtain x' where "x' \<in> set xs" and "R x' y'"
      by (elim bexE)
    with Cons.prems Cons.hyps(1) show ?thesis
      by (auto intro: assms(3))
  qed
  with Cons show ?case by simp
qed

text \<open>What \<^verbatim>\<open>list(cursor)\<close> yields for the query of the two history functions.\<close>

lemma history_cursor_list:
  assumes "cursor_list fault
             (cursor_limit n (cursor_sort_desc engine field (cursor_find coll f v))) = Inr ds"
  shows "ds = (if n = 0 then engine (\<lambda>d. bson_key (doc_get d field PNone))
                               (filter (doc_matches f v) coll)
               else take (nat \<bar>n\<bar>) (engine (\<lambda>d. bson_key (doc_get d field PNone))
                               (filter (doc_matches f v) coll)))"
  using assms
  by (simp add: cursor_list_def cursor_limit_def cursor_sort_desc_def cursor_find_def
           split: option.splits if_splits)

lemma scan_executions:
  assumes eng: "sorts_descending engine"
    and body: "try_bind
             (cursor_list fault
                (cursor_limit n (cursor_sort_desc engine ''start_time''
                   (cursor_find coll field v))))
             (comprehension doc_to_execution) = Inr xs"
  shows "0 < n \<longrightarrow> int (length xs) \<le> n"
    and "sorted_wrt (\<lambda>a b. bson_key (start_time b) \<le> bson_key (start_time a)) xs"
    and "\<forall>x\<in>set xs. \<exists>d. doc_matches field v d \<and> doc_to_execution d = Inr x"
proof -
  let ?key = "\<lambda>d. bson_key (doc_get d ''start_time'' PNone)"
  let ?sorted = "engine ?key (filter (doc_matches field v) coll)"
  from body obtain ds where
    listed: "cursor_list fault
               (cursor_limit n (cursor_sort_desc engine ''start_time''
                  (cursor_find coll field v))) = Inr ds"
    and conv: "comprehension doc_to_execution ds = Inr xs"
    by (auto simp: try_bind_def split: sum.splits)
  from history_cursor_list [OF listed]
  have ds: "ds = (if n = 0 then ?sorted else take (nat \<bar>n\<bar>) ?sorted)" .
  from comprehension_ok [OF conv]
  have rel: "list_all2 (\<lambda>d x. doc_to_execution d = Inr x) ds xs" .
  then have len: "length xs = length ds"
    by (simp add: list_all2_lengthD)
  show "0 < n \<longrightarrow> int (length xs) \<le> n"
  proof
    assume pos: "0 < n"
    with ds have "ds = take (nat n) ?sorted" by simp
    then have "length ds \<le> nat n" by simp
    with len pos show "int (length xs) \<le> n" by simp
  qed
  have "sorted_wrt (\<lambda>a b. ?key b \<le> ?key a) ?sorted"
    by (rule sorts_descendingD(2) [OF eng])
  then have "sorted_wrt (\<lambda>a b. ?key b \<le> ?key a) ds"
    by (simp add: ds)
  from sorted_wrt_list_all2 [OF rel this]
  show "sorted_wrt (\<lambda>a b. bson_key (start_time b) \<le> bson_key (start_time a)) xs"
    by (simp add: doc_to_execution_fields(2))
  have sub: "set ds \<subseteq> set (filter (doc_matches field v) coll)"
  proof -
    have "set ?sorted = set (filter (doc_matches field v) coll)"
      by (rule mset_eq_setD [OF sorts_descendingD(1) [OF eng]])
    then show ?thesis
      by (auto simp: ds dest: in_set_takeD)
  qed
  show "\<forall>x\<in>set xs. \<exists>d. doc_matches field v d \<and> doc_to_execution d = Inr x"
  proof
    fix x assume "x \<in> set xs"
    from list_all2_preimage [OF rel this] obtain d where
      d: "d \<in> set ds" "doc_to_execution d = Inr x"
      by (elim bexE)
    from d(1) sub have "doc_matches field v d"
      by auto
    with d(2) show "\<exists>d. doc_matches field v d \<and> doc_to_execution d = Inr x"
      by (intro exI conjI)
  qed
qed

lemma matches_string_field:
  "doc_matches field (PStr s) d \<Longrightarrow> map_of d field = Some (PStr s)"
  by (simp add: doc_matches_def split: option.splits)

lemma sorted_desc_unique:
  fixes key :: "'a \<Rightarrow> 'k::linorder"
  assumes "mset xs = mset ys"
    and "sorted_wrt (\<lambda>a b. key b \<le> key a) xs"
    and "sorted_wrt (\<lambda>a b. key b \<le> key a) ys"
    and "inj_on key (set xs)"
  shows "xs = ys"
proof -
  have sx: "sorted (rev (map key xs))" and sy: "sorted (rev (map key ys))"
    using assms(2,3) by (simp_all add: sorted_wrt_rev sorted_wrt_map flip: rev_map)
  have "mset (rev (map key ys)) = mset (rev (map key xs))"
    using assms(1) by simp
  from properties_for_sort [OF this sy] sorted_sort_id [OF sx]
  have "rev (map key xs) = rev (map key ys)" by simp
  then have keys: "map key xs = map key ys" by simp
  have "set ys = set xs"
    using assms(1) by (metis mset_eq_setD)
  with assms(4) have "inj_on key (set xs \<union> set ys)" by simp
  from inj_on_map_eq_map [OF this] keys show ?thesis by simp
qed

lemma engines_agree_without_ties:
  assumes "sorts_descending e1" and "sorts_descending e2" and "inj_on key (set ds)"
  shows "e1 key ds = e2 key ds"
proof (rule sorted_desc_unique [where key = key])
  show "mset (e1 key ds) = mset (e2 key ds)"
    by (simp add: sorts_descendingD(1) [OF assms(1)] sorts_descendingD(1) [OF assms(2)])
  show "sorted_wrt (\<lambda>a b. key b \<le> key a) (e1 key ds)"
    by (rule sorts_descendingD(2) [OF assms(1)])
  show "sorted_wrt (\<lambda>a b. key b \<le> key a) (e2 key ds)"
    by (rule sorts_descendingD(2) [OF assms(2)])
  have "set (e1 key ds) = set ds"
    by (rule mset_eq_setD [OF sorts_descendingD(1) [OF assms(1)]])
  with assms(3) show "inj_on key (set (e1 key ds))" by simp
qed

lemma distinct_start_times_inj:
  assumes "distinct (map (\<lambda>d. doc_get d ''start_time'' PNone) ds)"
  shows "inj_on (\<lambda>d. bson_key (doc_get d ''start_time'' PNone)) (set ds)"
proof (rule inj_onI)
  fix a b assume "a \<in> set ds" "b \<in> set ds"
    and "bson_key (doc_get a ''start_time'' PNone) = bson_key (doc_get b ''start_time'' PNone)"
  then have "doc_get a ''start_time'' PNone = doc_get b ''start_time'' PNone"
    by (simp add: bson_key_inj)
  with assms \<open>a \<in> set ds\<close> \<open>b \<in> set ds\<close> show "a = b"
    by (simp add: distinct_map inj_on_def)
qed

lemma db_two_by_task:
  "filter (doc_matches ''task_id'' (PStr ''t1'')) (executions_collection db_two)
     = [execution_doc exec_done, execution_doc exec_later]"
  by (simp add: db_two_def doc_matches_def execution_doc_def exec_done_def
        exec_later_def exec_running_def)

lemma db_two_by_user:
  "filter (doc_matches ''user'' (PStr ''u1'')) (executions_collection db_two)
     = [execution_doc exec_done, execution_doc exec_later]"
  by (simp add: db_two_def doc_matches_def execution_doc_def exec_done_def
        exec_later_def exec_running_def)

lemma db_two_sorted:
  "ties_in_insertion_order (\<lambda>d. bson_key (doc_get d ''start_time'' PNone))
     [execution_doc exec_done, execution_doc exec_later]
     = [execution_doc exec_later, execution_doc exec_done]"
  by (simp add: ties_in_insertion_order_def sort_key_def doc_get_def execution_doc_def
        exec_done_def exec_later_def exec_running_def)

lemma db_two_history:
  "cursor_list None
     (cursor_limit n (cursor_sort_desc ties_in_insertion_order ''start_time''
        (cursor_find (executions_collection db_two) ''task_id'' (PStr ''t1''))))
     = (if 2 ^ 63 \<le> \<bar>n\<bar> then Inl (OverflowError ''limit'')
        else if n = 0 then Inr [execution_doc exec_later, execution_doc exec_done]
        else Inr (take (nat \<bar>n\<bar>) [execution_doc exec_later, execution_doc exec_done]))"
  "cursor_list None
     (cursor_limit n (cursor_sort_desc ties_in_insertion_order ''start_time''
        (cursor_find (executions_collection db_two) ''user'' (PStr ''u1''))))
     = (if 2 ^ 63 \<le> \<bar>n\<bar> then Inl (OverflowError ''limit'')
        else if n = 0 then Inr [execution_doc exec_later, execution_doc exec_done]
        else Inr (take (nat \<bar>n\<bar>) [execution_doc exec_later, execution_doc exec_done]))"
  by (simp_all add: cursor_list_def cursor_limit_def cursor_sort_desc_def cursor_find_def
        db_two_by_task db_two_by_user db_two_sorted)

text \<open>
  C5, as stated, fails for the limit 0: the driver takes \<^verbatim>\<open>limit(0)\<close> as no limit,
  and the code passes the argument through, so both queries return the two stored
  executions.
\<close>

theorem limit_zero_unbounded_counterexample:
  "fst (get_executions None ties_in_insertion_order db_two ''t1'' (Some 0))
     = Inr [exec_later, exec_done]
   \<and> fst (get_executions_by_user None ties_in_insertion_order db_two ''u1'' (Some 0))
     = Inr [exec_later, exec_done]
   \<and> \<not> int (length [exec_later, exec_done]) \<le> 0"
  by (simp add: get_executions_def get_executions_by_user_def db_two_history try_bind_def
        doc_to_execution_execution_doc)

text \<open>
  C5, amended. For every task id and every limit \<open>N \<ge> 1\<close>, \<^verbatim>\<open>get_executions\<close>
  returns at most \<open>N\<close> executions (at most 10 when the limit is left out), all with
  that task id, ordered by start time, latest first; \<^verbatim>\<open>get_executions_by_user\<close>
  does the same for the executions of one user, with the default 50. This holds
  whatever the server's sort does with equal keys. The order is the database's order
  of values, which on timestamps is the order of time.
\<close>

theorem executions_bounded_filtered_sorted:
  assumes eng: "sorts_descending engine"
  shows "(\<exists>xs. fst (get_executions fault engine db tid lim) = Inr xs
        \<and> (case lim of None \<Rightarrow> length xs \<le> 10 | Some n \<Rightarrow> 0 < n \<longrightarrow> int (length xs) \<le> n)
        \<and> list_all (\<lambda>x. task_id x = PStr tid) xs
        \<and> sorted_wrt (\<lambda>a b. bson_key (start_time b) \<le> bson_key (start_time a)) xs)
   \<and> (\<exists>xs. fst (get_executions_by_user fault engine db uid lim) = Inr xs
        \<and> (case lim of None \<Rightarrow> length xs \<le> 50 | Some n \<Rightarrow> 0 < n \<longrightarrow> int (length xs) \<le> n)
        \<and> list_all (\<lambda>x. user_E x = PStr uid) xs
        \<and> sorted_wrt (\<lambda>a b. bson_key (start_time b) \<le> bson_key (start_time a)) xs)"
proof (rule conjI)
  define n where "n = (case lim of None \<Rightarrow> 10 | Some m \<Rightarrow> m)"
  let ?body = "try_bind
                 (cursor_list fault
                    (cursor_limit n (cursor_sort_desc engine ''start_time''
                       (cursor_find (executions_collection db) ''task_id'' (PStr tid)))))
                 (comprehension doc_to_execution)"
  let ?goal = "\<lambda>xs. fst (get_executions fault engine db tid lim) = Inr xs
        \<and> (case lim of None \<Rightarrow> length xs \<le> 10 | Some n \<Rightarrow> 0 < n \<longrightarrow> int (length xs) \<le> n)
        \<and> list_all (\<lambda>x. task_id x = PStr tid) xs
        \<and> sorted_wrt (\<lambda>a b. bson_key (start_time b) \<le> bson_key (start_time a)) xs"
  show "\<exists>xs. ?goal xs"
  proof (cases ?body)
    case (Inl e)
    then have "fst (get_executions fault engine db tid lim) = Inr []"
      by (simp add: get_executions_def n_def)
    then have "?goal []" by (simp split: option.splits)
    then show ?thesis ..
  next
    case (Inr xs)
    then have res: "fst (get_executions fault engine db tid lim) = Inr xs"
      by (simp add: get_executions_def n_def)
    note scan = scan_executions [OF eng Inr]
    have bound: "case lim of None \<Rightarrow> length xs \<le> 10 | Some n \<Rightarrow> 0 < n \<longrightarrow> int (length xs) \<le> n"
      using scan(1) by (simp add: n_def split: option.splits)
    have "task_id x = PStr tid" if "x \<in> set xs" for x
    proof -
      from bspec [OF scan(3) that] obtain d where
        d: "doc_matches ''task_id'' (PStr tid) d" "doc_to_execution d = Inr x"
        by (elim exE conjE)
      from matches_string_field [OF d(1)] doc_to_execution_fields(1) [OF d(2)]
      show ?thesis by simp
    qed
    then have "list_all (\<lambda>x. task_id x = PStr tid) xs"
      by (simp add: list_all_iff)
    with res bound scan(2) have "?goal xs" by simp
    then show ?thesis ..
  qed
next
  define n where "n = (case lim of None \<Rightarrow> 50 | Some m \<Rightarrow> m)"
  let ?body = "try_bind
                 (cursor_list fault
                    (cursor_limit n (cursor_sort_desc engine ''start_time''
                       (cursor_find (executions_collection db) ''user'' (PStr uid)))))
                 (comprehension doc_to_execution)"
  let ?goal = "\<lambda>xs. fst (get_executions_by_user fault engine db uid lim) = Inr xs
        \<and> (case lim of None \<Rightarrow> length xs \<le> 50 | Some n \<Rightarrow> 0 < n \<longrightarrow> int (length xs) \<le> n)
        \<and> list_all (\<lambda>x. user_E x = PStr uid) xs
        \<and> sorted_wrt (\<lambda>a b. bson_key (start_time b) \<le> bson_key (start_time a)) xs"
  show "\<exists>xs. ?goal xs"
  proof (cases ?body)
    case (Inl e)
    then have "fst (get_executions_by_user fault engine db uid lim) = Inr []"
      by (simp add: get_executions_by_user_def n_def)
    then have "?goal []" by (simp split: option.splits)
    then show ?thesis ..
  next
    case (Inr xs)
    then have res: "fst (get_executions_by_user fault engine db uid lim) = Inr xs"
      by (simp add: get_executions_by_user_def n_def)
    note scan = scan_executions [OF eng Inr]
    have bound: "case lim of None \<Rightarrow> length xs \<le> 50 | Some n \<Rightarrow> 0 < n \<longrightarrow> int (length xs) \<le> n"
      using scan(1) by (simp add: n_def split: option.splits)
    have "user_E x = PStr uid" if "x \<in> set xs" for x
    proof -
      from bspec [OF scan(3) that] obtain d where
        d: "doc_matches ''user'' (PStr uid) d" "doc_to_execution d = Inr x"
        by (elim exE conjE)
      from matches_string_field [OF d(1)] doc_to_execution_fields(3) [OF d(2)]
      show ?thesis by (simp add: doc_get_def)
    qed
    then have "list_all (\<lambda>x. user_E x = PStr uid) xs"
      by (simp add: list_all_iff)
    with res bound scan(2) have "?goal xs" by simp
    then show ?thesis ..
  qed
qed

theorem executions_bounded_filtered_sorted_witness:
  "sorts_descending ties_in_insertion_order
   \<and> (0::int) < 1
   \<and> fst (get_executions None ties_in_insertion_order db_two ''t1'' (Some 1)) = Inr [exec_later]
   \<and> fst (get_executions_by_user None ties_in_insertion_order db_two ''u1'' (Some 1))
       = Inr [exec_later]
   \<and> int (length [exec_later]) \<le> 1
   \<and> fst (get_executions None ties_in_insertion_order db_two ''t1'' None)
       = Inr [exec_later, exec_done]
   \<and> task_id exec_later = PStr ''t1'' \<and> task_id exec_done = PStr ''t1''
   \<and> user_E exec_later = PStr ''u1''
   \<and> bson_key (start_time exec_done) \<le> bson_key (start_time exec_later)"
proof -
  have one: "fst (get_executions None ties_in_insertion_order db_two ''t1'' (Some 1))
               = Inr [exec_later]"
    "fst (get_executions_by_user None ties_in_insertion_order db_two ''u1'' (Some 1))
       = Inr [exec_later]"
    "fst (get_executions None ties_in_insertion_order db_two ''t1'' None)
       = Inr [exec_later, exec_done]"
    by (simp_all add: get_executions_def get_executions_by_user_def db_two_history try_bind_def
          doc_to_execution_execution_doc)
  have fields: "task_id exec_later = PStr ''t1''" "task_id exec_done = PStr ''t1''"
    "user_E exec_later = PStr ''u1''"
    "bson_key (start_time exec_done) \<le> bson_key (start_time exec_later)"
    by (simp_all add: exec_later_def exec_done_def exec_running_def)
  show ?thesis
    using executions_bounded_filtered_sorted
            [OF ties_in_insertion_order_sorts, of None db_two "''t1''" "Some 1" "''u1''"]
          ties_in_insertion_order_sorts one fields
    by simp
qed

text \<open>
  C8, as stated, fails: the query gives the server the single sort key
  \<^verbatim>\<open>start_time\<close> and no second key. Two sorts that both order by that key, one
  keeping tied documents in insertion order and one reversing them, answer the same
  call on the same data with the two tied executions in opposite orders.
\<close>

theorem tie_order_left_to_engine_counterexample:
  "sorts_descending ties_in_insertion_order
   \<and> sorts_descending ties_in_reverse_order
   \<and> start_time tie_a = start_time tie_b
   \<and> fst (get_executions None ties_in_insertion_order db_tie ''t1'' None) = Inr [tie_a, tie_b]
   \<and> fst (get_executions None ties_in_reverse_order db_tie ''t1'' None) = Inr [tie_b, tie_a]
   \<and> fst (get_executions_by_user None ties_in_insertion_order db_tie ''u1'' None)
       = Inr [tie_a, tie_b]
   \<and> fst (get_executions_by_user None ties_in_reverse_order db_tie ''u1'' None)
       = Inr [tie_b, tie_a]
   \<and> [tie_a, tie_b] \<noteq> [tie_b, tie_a]"
proof -
  have sel: "filter (doc_matches ''task_id'' (PStr ''t1'')) (executions_collection db_tie)
               = [execution_doc tie_a, execution_doc tie_b]"
    "filter (doc_matches ''user'' (PStr ''u1'')) (executions_collection db_tie)
               = [execution_doc tie_a, execution_doc tie_b]"
    by (simp_all add: db_tie_def doc_matches_def execution_doc_def tie_a_def tie_b_def
          exec_running_def)
  have key: "doc_get (execution_doc tie_a) ''start_time'' PNone = PDate 1000000"
    "doc_get (execution_doc tie_b) ''start_time'' PNone = PDate 1000000"
    by (simp_all add: doc_get_def execution_doc_def tie_a_def tie_b_def exec_running_def)
  have srt: "ties_in_insertion_order (\<lambda>d. bson_key (doc_get d ''start_time'' PNone))
               [execution_doc tie_a, execution_doc tie_b]
               = [execution_doc tie_a, execution_doc tie_b]"
    "ties_in_reverse_order (\<lambda>d. bson_key (doc_get d ''start_time'' PNone))
               [execution_doc tie_a, execution_doc tie_b]
               = [execution_doc tie_b, execution_doc tie_a]"
    by (simp_all add: ties_in_insertion_order_def ties_in_reverse_order_def sort_key_def key)
  have runs: "fst (get_executions None ties_in_insertion_order db_tie ''t1'' None)
                = Inr [tie_a, tie_b]"
    "fst (get_executions None ties_in_reverse_order db_tie ''t1'' None) = Inr [tie_b, tie_a]"
    "fst (get_executions_by_user None ties_in_insertion_order db_tie ''u1'' None)
       = Inr [tie_a, tie_b]"
    "fst (get_executions_by_user None ties_in_reverse_order db_tie ''u1'' None)
       = Inr [tie_b, tie_a]"
    by (simp_all add: get_executions_def get_executions_by_user_def cursor_list_def
          cursor_limit_def cursor_sort_desc_def cursor_find_def sel srt try_bind_def
          doc_to_execution_execution_doc)
  have diff: "start_time tie_a = start_time tie_b" "[tie_a, tie_b] \<noteq> [tie_b, tie_a]"
    by (simp_all add: tie_a_def tie_b_def exec_running_def)
  from ties_in_insertion_order_sorts ties_in_reverse_order_sorts runs diff
  show ?thesis by simp
qed

text \<open>
  C8, amended. When the executions selected by the query have pairwise distinct
  \<^verbatim>\<open>start_time\<close> values, \<^verbatim>\<open>get_executions\<close> and
  \<^verbatim>\<open>get_executions_by_user\<close> return the same result (the same list in the same
  order, and the same log) for every sort the server may apply, so repeated calls with
  the same arguments against unchanged data agree. For executions whose
  \<^verbatim>\<open>start_time\<close> values tie the code adds no tie-break, and their relative order is
  whatever the server's sort produces.
\<close>

theorem history_deterministic_without_ties:
  assumes "sorts_descending e1" and "sorts_descending e2"
  shows "(distinct (map (\<lambda>d. doc_get d ''start_time'' PNone)
             (filter (doc_matches ''task_id'' (PStr tid)) (executions_collection db))) \<longrightarrow>
          get_executions fault e1 db tid lim = get_executions fault e2 db tid lim)
       \<and> (distinct (map (\<lambda>d. doc_get d ''start_time'' PNone)
             (filter (doc_matches ''user'' (PStr uid)) (executions_collection db))) \<longrightarrow>
          get_executions_by_user fault e1 db uid lim
            = get_executions_by_user fault e2 db uid lim)"
proof (intro conjI impI)
  let ?ds = "filter (doc_matches ''task_id'' (PStr tid)) (executions_collection db)"
  assume "distinct (map (\<lambda>d. doc_get d ''start_time'' PNone) ?ds)"
  from engines_agree_without_ties [OF assms distinct_start_times_inj [OF this]]
  have "cursor_sort_desc e1 ''start_time''
          (cursor_find (executions_collection db) ''task_id'' (PStr tid))
        = cursor_sort_desc e2 ''start_time''
          (cursor_find (executions_collection db) ''task_id'' (PStr tid))"
    by (simp add: cursor_sort_desc_def cursor_find_def)
  then show "get_executions fault e1 db tid lim = get_executions fault e2 db tid lim"
    by (simp add: get_executions_def)
next
  let ?ds = "filter (doc_matches ''user'' (PStr uid)) (executions_collection db)"
  assume "distinct (map (\<lambda>d. doc_get d ''start_time'' PNone) ?ds)"
  from engines_agree_without_ties [OF assms distinct_start_times_inj [OF this]]
  have "cursor_sort_desc e1 ''start_time''
          (cursor_find (executions_collection db) ''user'' (PStr uid))
        = cursor_sort_desc e2 ''start_time''
          (cursor_find (executions_collection db) ''user'' (PStr uid))"
    by (simp add: cursor_sort_desc_def cursor_find_def)
  then show "get_executions_by_user fault e1 db uid lim
               = get_executions_by_user fault e2 db uid lim"
    by (simp add: get_executions_by_user_def)
qed

theorem history_deterministic_without_ties_witness:
  "sorts_descending ties_in_insertion_order
   \<and> sorts_descending ties_in_reverse_order
   \<and> distinct (map (\<lambda>d. doc_get d ''start_time'' PNone)
        (filter (doc_matches ''task_id'' (PStr ''t1'')) (executions_collection db_two)))
   \<and> distinct (map (\<lambda>d. doc_get d ''start_time'' PNone)
        (filter (doc_matches ''user'' (PStr ''u1'')) (executions_collection db_two)))
   \<and> get_executions None ties_in_insertion_order db_two ''t1'' None
       = (Inr [exec_later, exec_done], [])
   \<and> get_executions None ties_in_reverse_order db_two ''t1'' None
       = (Inr [exec_later, exec_done], [])
   \<and> get_executions_by_user None ties_in_reverse_order db_two ''u1'' None
       = get_executions_by_user None ties_in_insertion_order db_two ''u1'' None"
proof -
  have d1: "distinct (map (\<lambda>d. doc_get d ''start_time'' PNone)
        (filter (doc_matches ''task_id'' (PStr ''t1'')) (executions_collection db_two)))"
    by (simp add: db_two_by_task)
       (simp add: doc_get_def execution_doc_def exec_done_def exec_later_def exec_running_def)
  have d2: "distinct (map (\<lambda>d. doc_get d ''start_time'' PNone)
        (filter (doc_matches ''user'' (PStr ''u1'')) (executions_collection db_two)))"
    by (simp add: db_two_by_user)
       (simp add: doc_get_def execution_doc_def exec_done_def exec_later_def exec_running_def)
  have run: "get_executions None ties_in_insertion_order db_two ''t1'' None
       = (Inr [exec_later, exec_done], [])"
    by (simp add: get_executions_def db_two_history try_bind_def doc_to_execution_execution_doc)
  note inst = history_deterministic_without_ties
                [OF ties_in_insertion_order_sorts ties_in_reverse_order_sorts,
                 where db = db_two and tid = "''t1''" and uid = "''u1''" and fault = None
                   and lim = None]
  from inst [THEN conjunct1, THEN mp, OF d1] run
  have r1: "get_executions None ties_in_reverse_order db_two ''t1'' None
              = (Inr [exec_later, exec_done], [])"
    by simp
  from inst [THEN conjunct2, THEN mp, OF d2]
  have r2: "get_executions_by_user None ties_in_reverse_order db_two ''u1'' None
       = get_executions_by_user None ties_in_insertion_order db_two ''u1'' None"
    by simp
  from ties_in_insertion_order_sorts ties_in_reverse_order_sorts d1 d2 run r1 r2
  show ?thesis by simp
qed

end
